theory Spec2Isabelle
  imports Complex_Main
begin

section \<open>Scalars, dual numbers and equation vectors\<close>

text \<open>
  \<open>Scalar\<close> is modelled by the real numbers: the arithmetic of the residual is read
  as exact arithmetic, rounding is not part of the model. The only division of the
  residual is the one by the face area; the statement about the Darcy flux assumes a
  face area other than zero.
\<close>

type_synonym scalar = real

text \<open>
  Modelled from the spec: the \<open>Evaluation\<close> type and its \<open>MathToolbox\<close> come from
  the material library and are not part of the sources. Following the spec's Evaluation
  Abstraction, an evaluation is a scalar together with its partial derivatives with
  respect to the local unknowns (addressed by their index), with the arithmetic of the
  chain rule, a \<open>value\<close> extractor (here \<open>val\<close>), the derivative-free \<open>createConstant\<close>
  and the seeded \<open>createVariable\<close>.
\<close>

datatype evaluation = Evaluation (val: scalar) (deriv: "nat \<Rightarrow> scalar")

instantiation evaluation :: comm_ring_1
begin

definition zero_evaluation :: evaluation where
  "zero_evaluation = Evaluation 0 (\<lambda>_. 0)"

definition one_evaluation :: evaluation where
  "one_evaluation = Evaluation 1 (\<lambda>_. 0)"

definition plus_evaluation :: "evaluation \<Rightarrow> evaluation \<Rightarrow> evaluation" where
  "plus_evaluation a b = Evaluation (val a + val b) (\<lambda>i. deriv a i + deriv b i)"

definition uminus_evaluation :: "evaluation \<Rightarrow> evaluation" where
  "uminus_evaluation a = Evaluation (- val a) (\<lambda>i. - deriv a i)"

definition minus_evaluation :: "evaluation \<Rightarrow> evaluation \<Rightarrow> evaluation" where
  "minus_evaluation a b = Evaluation (val a - val b) (\<lambda>i. deriv a i - deriv b i)"

definition times_evaluation :: "evaluation \<Rightarrow> evaluation \<Rightarrow> evaluation" where
  "times_evaluation a b =
     Evaluation (val a * val b) (\<lambda>i. val a * deriv b i + deriv a i * val b)"

instance
proof
  fix a b c :: evaluation
  show "a * b * c = a * (b * c)"
    by (simp add: times_evaluation_def algebra_simps)
  show "a * b = b * a"
    by (simp add: times_evaluation_def algebra_simps)
  show "1 * a = a"
    by (simp add: times_evaluation_def one_evaluation_def)
  show "a + b + c = a + (b + c)"
    by (simp add: plus_evaluation_def algebra_simps)
  show "a + b = b + a"
    by (simp add: plus_evaluation_def algebra_simps)
  show "0 + a = a"
    by (simp add: plus_evaluation_def zero_evaluation_def)
  show "- a + a = 0"
    by (simp add: plus_evaluation_def uminus_evaluation_def zero_evaluation_def)
  show "a - b = a + - b"
    by (simp add: plus_evaluation_def uminus_evaluation_def minus_evaluation_def)
  show "(a + b) * c = a * c + b * c"
    by (simp add: plus_evaluation_def times_evaluation_def algebra_simps)
  show "(0::evaluation) \<noteq> 1"
    by (simp add: zero_evaluation_def one_evaluation_def)
qed

end

text \<open>\<open>Toolbox::createConstant\<close>: a scalar seen as an evaluation without derivatives.
  A product \<open>Scalar * Evaluation\<close> of the source is the product with this constant.\<close>

definition createConstant :: "scalar \<Rightarrow> evaluation" where
  "createConstant x = Evaluation x (\<lambda>_. 0)"

text \<open>\<open>variable<Evaluation>(x, idx)\<close>: value \<open>x\<close>, derivative one with respect to
  the unknown \<open>idx\<close> and zero with respect to every other one.\<close>

definition createVariable :: "scalar \<Rightarrow> nat \<Rightarrow> evaluation" where
  "createVariable x idx = Evaluation x (\<lambda>i. if i = idx then 1 else 0)"

text \<open>\<open>Toolbox::decay<LhsEval>\<close>: the identity when the left-hand side is an
  \<open>Evaluation\<close> (\<open>lhsIsEval\<close>), the value without derivatives when it is a
  \<open>Scalar\<close>.\<close>

definition decay :: "bool \<Rightarrow> evaluation \<Rightarrow> evaluation" where
  "decay lhsIsEval x = (if lhsIsEval then x else createConstant (val x))"

text \<open>
  \<open>Dune::FieldVector<_, numEq>\<close> and \<open>RateVector\<close> are lists of \<open>numEq\<close> entries.
  The source indexes them without a check; an index outside the vector is undefined
  behaviour there. The model leaves the vector unchanged in that case, and every
  statement about a slot names the slot's range.
\<close>

type_synonym eqVector = "evaluation list"

definition setAt :: "nat \<Rightarrow> 'a \<Rightarrow> 'a list \<Rightarrow> 'a list" where
  "setAt i v xs = (if i < length xs then xs[i := v] else xs)"

definition addAt :: "nat \<Rightarrow> 'a::plus \<Rightarrow> 'a list \<Rightarrow> 'a list" where
  "addAt i v xs = (if i < length xs then xs[i := xs ! i + v] else xs)"

definition mulAt :: "nat \<Rightarrow> 'a::times \<Rightarrow> 'a list \<Rightarrow> 'a list" where
  "mulAt i v xs = (if i < length xs then xs[i := xs ! i * v] else xs)"

section \<open>Configuration, fluid state and intensive quantities\<close>

text \<open>
  The compile-time properties of the type tag, the \<open>Indices\<close> class and the static
  interface of \<open>FluidSystem\<close> are declared outside the sources; the model takes them as
  one configuration record, with the names of the source.
\<close>

record config =
  numEq :: nat
  numPhases :: nat
  conti0EqIdx :: nat
  indicesNumPhases :: nat
  canonicalToActiveComponentIndex :: "nat \<Rightarrow> nat"
  waterEnabled :: bool
  gasEnabled :: bool
  oilEnabled :: bool
  contiEnergyEqIdx :: nat
  blackoilConserveSurfaceVolume :: bool
  enableEnergy :: bool
  blackOilEnergyScalingFactor :: scalar
  gasPhaseIdx :: nat
  oilPhaseIdx :: nat
  waterPhaseIdx :: nat
  gasCompIdx :: nat
  oilCompIdx :: nat
  waterCompIdx :: nat
  phaseIsActive :: "nat \<Rightarrow> bool"
  solventComponentIndex :: "nat \<Rightarrow> nat"
  enableDissolvedGas :: bool
  enableVaporizedOil :: bool
  enableVaporizedWater :: bool
  referenceDensity :: "nat \<Rightarrow> nat \<Rightarrow> scalar"

record fluidState =
  saturation :: "nat \<Rightarrow> evaluation"
  invB :: "nat \<Rightarrow> evaluation"
  Rs :: evaluation
  Rv :: evaluation
  Rvw :: evaluation

record intensiveQuantities =
  fluidState :: fluidState
  porosity :: evaluation
  mobility :: "nat \<Rightarrow> evaluation"
  pvtRegionIndex :: nat

text \<open>The equation slot of a canonical component: \<open>conti0EqIdx +
  Indices::canonicalToActiveComponentIndex(compIdx)\<close>.\<close>

definition compSlot :: "config \<Rightarrow> nat \<Rightarrow> nat" where
  "compSlot cfg compIdx = conti0EqIdx cfg + canonicalToActiveComponentIndex cfg compIdx"

section \<open>computeStorage\<close>

text \<open>
  \<open>adaptMassConservationQuantities_\<close> (the trailing underscore is not a legal name here): a no-op when surface volumes are conserved,
  otherwise the slot of every enabled component is multiplied by the reference density
  of its phase, water first, then gas, then oil.
\<close>

definition adaptMassConservationQuantities :: "config \<Rightarrow> eqVector \<Rightarrow> nat \<Rightarrow> eqVector" where
  "adaptMassConservationQuantities cfg container pvtRegionIdx =
     (if blackoilConserveSurfaceVolume cfg then container
      else
        let c1 = (if waterEnabled cfg
                  then mulAt (compSlot cfg (waterCompIdx cfg))
                         (createConstant (referenceDensity cfg (waterPhaseIdx cfg) pvtRegionIdx)) container
                  else container);
            c2 = (if gasEnabled cfg
                  then mulAt (compSlot cfg (gasCompIdx cfg))
                         (createConstant (referenceDensity cfg (gasPhaseIdx cfg) pvtRegionIdx)) c1
                  else c1);
            c3 = (if oilEnabled cfg
                  then mulAt (compSlot cfg (oilCompIdx cfg))
                         (createConstant (referenceDensity cfg (oilPhaseIdx cfg) pvtRegionIdx)) c2
                  else c2)
        in c3)"

text \<open>
  One iteration of the phase loop of \<open>computeStorage\<close>, for the left-hand side type
  \<open>LhsEval = Evaluation\<close> when \<open>lhsIsEval\<close> holds and \<open>LhsEval = Scalar\<close> otherwise.
  The seeded \<open>variable<LhsEval>\<close> of the pseudo equation exists for evaluations; for a
  scalar left-hand side the model stores its value.
\<close>

definition computeStorage_phase ::
  "config \<Rightarrow> bool \<Rightarrow> intensiveQuantities \<Rightarrow> nat \<Rightarrow> nat \<Rightarrow> eqVector \<Rightarrow> eqVector" where
  "computeStorage_phase cfg lhsIsEval intQuants timeIdx phaseIdx storage =
     (let fs = fluidState intQuants in
      if \<not> phaseIsActive cfg phaseIdx then
        (if indicesNumPhases cfg = 3 then
           (let slot = compSlot cfg (solventComponentIndex cfg phaseIdx) in
            if timeIdx = 0 then setAt slot (decay lhsIsEval (createVariable 0 slot)) storage
            else setAt slot 0 storage)
         else storage)
      else
        let slot = compSlot cfg (solventComponentIndex cfg phaseIdx);
            surfaceVolume = decay lhsIsEval (saturation fs phaseIdx)
                            * decay lhsIsEval (invB fs phaseIdx)
                            * decay lhsIsEval (porosity intQuants);
            s1 = addAt slot surfaceVolume storage;
            s2 = (if phaseIdx = oilPhaseIdx cfg \<and> enableDissolvedGas cfg
                  then addAt (compSlot cfg (gasCompIdx cfg))
                         (decay lhsIsEval (Rs fs) * surfaceVolume) s1
                  else s1);
            s3 = (if phaseIdx = gasPhaseIdx cfg \<and> enableVaporizedOil cfg
                  then addAt (compSlot cfg (oilCompIdx cfg))
                         (decay lhsIsEval (Rv fs) * surfaceVolume) s2
                  else s2);
            s4 = (if phaseIdx = gasPhaseIdx cfg \<and> enableVaporizedWater cfg
                  then addAt (compSlot cfg (waterCompIdx cfg))
                         (decay lhsIsEval (Rvw fs) * surfaceVolume) s3
                  else s3)
        in s4)"

text \<open>The phase loop \<open>for (phaseIdx = 0; phaseIdx < numPhases; ++phaseIdx)\<close>, started
  from the vector that \<open>storage = 0.0\<close> leaves.\<close>

definition computeStorage_phases ::
  "config \<Rightarrow> bool \<Rightarrow> intensiveQuantities \<Rightarrow> nat \<Rightarrow> eqVector" where
  "computeStorage_phases cfg lhsIsEval intQuants timeIdx =
     fold (computeStorage_phase cfg lhsIsEval intQuants timeIdx) [0..<numPhases cfg]
       (replicate (numEq cfg) 0)"

text \<open>
  The modules (solvent, extbo, polymer, energy, foam, brine, MICP) live in other files.
  Their \<open>addStorage\<close> functions are parameters: a list of functions, in the order of
  the calls, each taking the vector and the intensive quantities and returning the
  vector it leaves.
\<close>

type_synonym storageModule = "eqVector \<Rightarrow> intensiveQuantities \<Rightarrow> eqVector"

definition addStorageModules :: "storageModule list \<Rightarrow> intensiveQuantities \<Rightarrow> eqVector \<Rightarrow> eqVector" where
  "addStorageModules mods intQuants storage = fold (\<lambda>m s. m s intQuants) mods storage"

text \<open>\<open>computeStorage(storage, intQuants, timeIdx)\<close>. The first argument is the
  content of the output vector at the call; the function returns its content at the
  end.\<close>

definition computeStorage ::
  "config \<Rightarrow> storageModule list \<Rightarrow> bool \<Rightarrow> eqVector \<Rightarrow> intensiveQuantities \<Rightarrow> nat \<Rightarrow> eqVector" where
  "computeStorage cfg mods lhsIsEval storage intQuants timeIdx =
     (let s0 = computeStorage_phases cfg lhsIsEval intQuants timeIdx;
          s1 = adaptMassConservationQuantities cfg s0 (pvtRegionIndex intQuants)
      in addStorageModules mods intQuants s1)"

section \<open>computeFlux\<close>

text \<open>
  Modelled from the spec: \<open>getInvB_\<close>, \<open>getRs_\<close>, \<open>getRv_\<close> and \<open>getRvw_\<close> belong
  to the black-oil fluid state of the material library. They read the upstream fluid
  state's inverse formation-volume-factor and dissolution and vaporization ratios and
  decay them to the requested type (\<open>Evaluation\<close> when \<open>lhsIsEval\<close> holds, otherwise
  \<open>Scalar\<close>).
\<close>

definition getInvB :: "bool \<Rightarrow> fluidState \<Rightarrow> nat \<Rightarrow> nat \<Rightarrow> evaluation" where
  "getInvB lhsIsEval fs phaseIdx pvtRegionIdx = decay lhsIsEval (invB fs phaseIdx)"

definition getRs :: "bool \<Rightarrow> fluidState \<Rightarrow> nat \<Rightarrow> evaluation" where
  "getRs lhsIsEval fs pvtRegionIdx = decay lhsIsEval (Rs fs)"

definition getRv :: "bool \<Rightarrow> fluidState \<Rightarrow> nat \<Rightarrow> evaluation" where
  "getRv lhsIsEval fs pvtRegionIdx = decay lhsIsEval (Rv fs)"

definition getRvw :: "bool \<Rightarrow> fluidState \<Rightarrow> nat \<Rightarrow> evaluation" where
  "getRvw lhsIsEval fs pvtRegionIdx = decay lhsIsEval (Rvw fs)"

text \<open>
  \<open>evalPhaseFluxes_<UpEval, Eval, FluidState>(flux, phaseIdx, pvtRegionIdx,
  surfaceVolumeFlux, upFs)\<close>; \<open>upIsEval\<close> tells whether \<open>UpEval\<close> is \<open>Evaluation\<close>.
\<close>

definition evalPhaseFluxes ::
  "config \<Rightarrow> bool \<Rightarrow> eqVector \<Rightarrow> nat \<Rightarrow> nat \<Rightarrow> evaluation \<Rightarrow> fluidState \<Rightarrow> eqVector" where
  "evalPhaseFluxes cfg upIsEval flux phaseIdx pvtRegionIdx surfaceVolumeFlux upFs =
     (let slot = compSlot cfg (solventComponentIndex cfg phaseIdx);
          f1 = (if blackoilConserveSurfaceVolume cfg
                then addAt slot surfaceVolumeFlux flux
                else addAt slot
                       (surfaceVolumeFlux
                        * createConstant (referenceDensity cfg phaseIdx pvtRegionIdx)) flux)
      in
      if phaseIdx = oilPhaseIdx cfg then
        (if enableDissolvedGas cfg then
           (let rs = getRs upIsEval upFs pvtRegionIdx in
            if blackoilConserveSurfaceVolume cfg
            then addAt (compSlot cfg (gasCompIdx cfg)) (rs * surfaceVolumeFlux) f1
            else addAt (compSlot cfg (gasCompIdx cfg))
                   (rs * surfaceVolumeFlux
                    * createConstant (referenceDensity cfg (gasPhaseIdx cfg) pvtRegionIdx)) f1)
         else f1)
      else if phaseIdx = gasPhaseIdx cfg then
        (let f2 = (if enableVaporizedOil cfg then
                     (let rv = getRv upIsEval upFs pvtRegionIdx in
                      if blackoilConserveSurfaceVolume cfg
                      then addAt (compSlot cfg (oilCompIdx cfg)) (rv * surfaceVolumeFlux) f1
                      else addAt (compSlot cfg (oilCompIdx cfg))
                             (rv * surfaceVolumeFlux
                              * createConstant
                                  (referenceDensity cfg (oilPhaseIdx cfg) pvtRegionIdx)) f1)
                   else f1);
             f3 = (if enableVaporizedWater cfg then
                     (let rvw = getRvw upIsEval upFs pvtRegionIdx in
                      if blackoilConserveSurfaceVolume cfg
                      then addAt (compSlot cfg (waterCompIdx cfg)) (rvw * surfaceVolumeFlux) f2
                      else addAt (compSlot cfg (waterCompIdx cfg))
                             (rvw * surfaceVolumeFlux
                              * createConstant
                                  (referenceDensity cfg (waterPhaseIdx cfg) pvtRegionIdx)) f2)
                   else f2)
         in f3)
      else f1)"

text \<open>
  The problem, the stencil and the element context are declared outside the sources;
  the records hold the members that \<open>computeFlux\<close> and \<open>computeSource\<close> read.
  \<open>gravityDown\<close> is \<open>gravity()[dimWorld - 1]\<close>; \<open>source\<close> is the problem's source
  callback, which receives the vector to fill.
\<close>

record problem =
  transmissibility :: "nat \<Rightarrow> nat \<Rightarrow> scalar"
  thresholdPressure :: "nat \<Rightarrow> nat \<Rightarrow> scalar"
  gravityDown :: scalar
  dofCenterDepth :: "nat \<Rightarrow> nat \<Rightarrow> scalar"
  rockCompTransMultiplier :: "intensiveQuantities \<Rightarrow> nat \<Rightarrow> evaluation"
  source :: "eqVector \<Rightarrow> nat \<Rightarrow> nat \<Rightarrow> eqVector"

record elementContext =
  problem :: problem
  intensiveQuantitiesAt :: "nat \<Rightarrow> nat \<Rightarrow> intensiveQuantities"
  dofVolume :: "nat \<Rightarrow> nat \<Rightarrow> scalar"
  focusDofIndex :: nat
  interiorIndex :: "nat \<Rightarrow> nat"
  exteriorIndex :: "nat \<Rightarrow> nat"
  scvfArea :: "nat \<Rightarrow> scalar"
  globalSpaceIndex :: "nat \<Rightarrow> nat"

text \<open>
  \<open>ExtensiveQuantities::calculatePhasePressureDiff_\<close> is declared outside the sources
  and is a parameter. Its arguments are, in the order of the call, the interior and
  exterior intensive quantities, \<open>scvfIdx\<close>, \<open>timeIdx\<close>, \<open>phaseIdx\<close>, the interior
  and exterior dof index, \<open>Vin\<close>, \<open>Vex\<close>, the two global indices, \<open>distZ * g\<close> and
  the threshold pressure; it returns \<open>(upIdx, dnIdx, pressureDifference)\<close>.
\<close>

type_synonym pressureDiff =
  "intensiveQuantities \<Rightarrow> intensiveQuantities \<Rightarrow> nat \<Rightarrow> nat \<Rightarrow> nat \<Rightarrow> nat \<Rightarrow> nat
   \<Rightarrow> scalar \<Rightarrow> scalar \<Rightarrow> nat \<Rightarrow> nat \<Rightarrow> scalar \<Rightarrow> scalar \<Rightarrow> nat \<times> nat \<times> evaluation"

text \<open>The locals that \<open>computeFlux\<close> sets up before its phase loop (\<open>trans'\<close> is
  the local \<open>trans\<close>, whose name is taken in HOL).\<close>

record fluxLocals =
  interiorDofIdx :: nat
  exteriorDofIdx :: nat
  Vin :: scalar
  Vex :: scalar
  globalIndexIn :: nat
  globalIndexEx :: nat
  trans' :: scalar
  faceArea :: scalar
  thpres :: scalar
  g :: scalar
  intQuantsIn :: intensiveQuantities
  intQuantsEx :: intensiveQuantities
  distZ :: scalar
  focusDofIdx :: nat

definition computeFlux_locals :: "elementContext \<Rightarrow> nat \<Rightarrow> nat \<Rightarrow> fluxLocals" where
  "computeFlux_locals elemCtx scvfIdx timeIdx =
     (let inIdx = interiorIndex elemCtx scvfIdx;
          exIdx = exteriorIndex elemCtx scvfIdx;
          prob = problem elemCtx
      in \<lparr> interiorDofIdx = inIdx,
           exteriorDofIdx = exIdx,
           Vin = dofVolume elemCtx inIdx 0,
           Vex = dofVolume elemCtx exIdx 0,
           globalIndexIn = globalSpaceIndex elemCtx inIdx,
           globalIndexEx = globalSpaceIndex elemCtx exIdx,
           trans' = transmissibility prob inIdx exIdx,
           faceArea = scvfArea elemCtx scvfIdx,
           thpres = thresholdPressure prob (globalSpaceIndex elemCtx inIdx)
                      (globalSpaceIndex elemCtx exIdx),
           g = gravityDown prob,
           intQuantsIn = intensiveQuantitiesAt elemCtx inIdx timeIdx,
           intQuantsEx = intensiveQuantitiesAt elemCtx exIdx timeIdx,
           distZ = dofCenterDepth prob inIdx timeIdx - dofCenterDepth prob exIdx timeIdx,
           focusDofIdx = focusDofIndex elemCtx \<rparr>)"

text \<open>
  The body of the phase loop after the call of \<open>calculatePhasePressureDiff_\<close>: the
  choice of the upstream quantities, the Darcy flux and the call of
  \<open>evalPhaseFluxes_\<close>. The comparison \<open>pressureDifference == 0\<close> of an evaluation
  with a number compares the value.
\<close>

definition upwindPhaseFlux ::
  "config \<Rightarrow> problem \<Rightarrow> fluxLocals \<Rightarrow> nat \<Rightarrow> nat \<Rightarrow> evaluation \<Rightarrow> eqVector \<Rightarrow> eqVector" where
  "upwindPhaseFlux cfg prob L phaseIdx upIdx pressureDifference flux =
     (let up = (if upIdx = interiorDofIdx L then intQuantsIn L else intQuantsEx L);
          globalIndex = (if upIdx = interiorDofIdx L then globalIndexIn L else globalIndexEx L);
          transMult = rockCompTransMultiplier prob up globalIndex;
          darcyFlux =
            (if val pressureDifference = 0 then 0
             else if upIdx = interiorDofIdx L
             then pressureDifference * mobility up phaseIdx * transMult
                  * createConstant (- trans' L / faceArea L)
             else pressureDifference
                  * createConstant (val (mobility up phaseIdx) * val transMult
                                    * (- trans' L / faceArea L)));
          pvtRegionIdx = pvtRegionIndex up
      in
      if upIdx = focusDofIdx L then
        evalPhaseFluxes cfg True flux phaseIdx pvtRegionIdx
          (getInvB True (fluidState up) phaseIdx pvtRegionIdx * darcyFlux) (fluidState up)
      else
        evalPhaseFluxes cfg False flux phaseIdx pvtRegionIdx
          (getInvB False (fluidState up) phaseIdx pvtRegionIdx * darcyFlux) (fluidState up))"

text \<open>One iteration of the phase loop of \<open>computeFlux\<close>.\<close>

definition computeFlux_phase ::
  "config \<Rightarrow> problem \<Rightarrow> pressureDiff \<Rightarrow> fluxLocals \<Rightarrow> nat \<Rightarrow> nat \<Rightarrow> nat \<Rightarrow> eqVector
   \<Rightarrow> eqVector" where
  "computeFlux_phase cfg prob calculatePhasePressureDiff L scvfIdx timeIdx phaseIdx flux =
     (if \<not> phaseIsActive cfg phaseIdx then flux
      else
        case calculatePhasePressureDiff (intQuantsIn L) (intQuantsEx L) scvfIdx timeIdx
               phaseIdx (interiorDofIdx L) (exteriorDofIdx L) (Vin L) (Vex L)
               (globalIndexIn L) (globalIndexEx L) (distZ L * g L) (thpres L)
        of (upIdx, dnIdx, pressureDifference) \<Rightarrow>
          upwindPhaseFlux cfg prob L phaseIdx upIdx pressureDifference flux)"

text \<open>
  The modules' \<open>computeFlux\<close> functions and the diffusion module's
  \<open>addDiffusiveFlux\<close> are parameters, a list in the order of the calls.
\<close>

type_synonym fluxModule = "eqVector \<Rightarrow> elementContext \<Rightarrow> nat \<Rightarrow> nat \<Rightarrow> eqVector"

definition computeFluxModules ::
  "fluxModule list \<Rightarrow> elementContext \<Rightarrow> nat \<Rightarrow> nat \<Rightarrow> eqVector \<Rightarrow> eqVector" where
  "computeFluxModules mods elemCtx scvfIdx timeIdx flux =
     fold (\<lambda>m f. m f elemCtx scvfIdx timeIdx) mods flux"

text \<open>The two assertions of \<open>computeFlux\<close> are the errors of the model.\<close>

datatype error = AssertTimeIdxIsZero | AssertInteriorIsNotExterior

text \<open>The phase loop of \<open>computeFlux\<close>, started from the vector that \<open>flux = 0.0\<close>
  leaves.\<close>

definition computeFlux_phases ::
  "config \<Rightarrow> pressureDiff \<Rightarrow> elementContext \<Rightarrow> nat \<Rightarrow> nat \<Rightarrow> eqVector" where
  "computeFlux_phases cfg calculatePhasePressureDiff elemCtx scvfIdx timeIdx =
     fold (computeFlux_phase cfg (problem elemCtx) calculatePhasePressureDiff
             (computeFlux_locals elemCtx scvfIdx timeIdx) scvfIdx timeIdx)
       [0..<numPhases cfg] (replicate (numEq cfg) 0)"

text \<open>\<open>computeFlux(flux, elemCtx, scvfIdx, timeIdx)\<close>. The argument \<open>flux\<close> is the
  content of the output vector at the call.\<close>

definition computeFlux ::
  "config \<Rightarrow> fluxModule list \<Rightarrow> pressureDiff \<Rightarrow> eqVector \<Rightarrow> elementContext \<Rightarrow> nat \<Rightarrow> nat
   \<Rightarrow> error + eqVector" where
  "computeFlux cfg mods calculatePhasePressureDiff flux elemCtx scvfIdx timeIdx =
     (if timeIdx \<noteq> 0 then Inl AssertTimeIdxIsZero
      else if interiorIndex elemCtx scvfIdx = exteriorIndex elemCtx scvfIdx
      then Inl AssertInteriorIsNotExterior
      else Inr (computeFluxModules mods elemCtx scvfIdx timeIdx
                  (computeFlux_phases cfg calculatePhasePressureDiff elemCtx scvfIdx timeIdx)))"

section \<open>computeSource\<close>

text \<open>
  \<open>computeSource(source, elemCtx, dofIdx, timeIdx)\<close>: the problem's callback receives
  the output vector as it is at the call, then the MICP module's \<open>addSource\<close> (a
  parameter), then the scaling of the energy equation.
\<close>

type_synonym sourceModule = "eqVector \<Rightarrow> elementContext \<Rightarrow> nat \<Rightarrow> nat \<Rightarrow> eqVector"

definition computeSource ::
  "config \<Rightarrow> sourceModule \<Rightarrow> eqVector \<Rightarrow> elementContext \<Rightarrow> nat \<Rightarrow> nat \<Rightarrow> eqVector" where
  "computeSource cfg micpAddSource src elemCtx dofIdx timeIdx =
     (let s1 = source (problem elemCtx) src dofIdx timeIdx;
          s2 = micpAddSource s1 elemCtx dofIdx timeIdx
      in if enableEnergy cfg
         then mulAt (contiEnergyEqIdx cfg) (createConstant (blackOilEnergyScalingFactor cfg)) s2
         else s2)"

section \<open>Closed forms used by the statements\<close>

text \<open>
  What one active phase adds to one slot of the storage vector, in the words of the
  specification: the surface volume \<open>saturation * invB * porosity\<close> in the phase's own
  component slot, \<open>Rs\<close> times it in the gas slot for the oil phase with dissolved gas,
  \<open>Rv\<close> times it in the oil slot and \<open>Rvw\<close> times it in the water slot for the gas
  phase with vaporized oil and vaporized water.
\<close>

definition storageContribution ::
  "config \<Rightarrow> bool \<Rightarrow> intensiveQuantities \<Rightarrow> nat \<Rightarrow> nat \<Rightarrow> evaluation" where
  "storageContribution cfg lhsIsEval intQuants phaseIdx slot =
     (let fs = fluidState intQuants;
          surfaceVolume = decay lhsIsEval (saturation fs phaseIdx)
                          * decay lhsIsEval (invB fs phaseIdx)
                          * decay lhsIsEval (porosity intQuants)
      in (if slot = compSlot cfg (solventComponentIndex cfg phaseIdx) then surfaceVolume else 0)
         + (if phaseIdx = oilPhaseIdx cfg \<and> enableDissolvedGas cfg
               \<and> slot = compSlot cfg (gasCompIdx cfg)
            then decay lhsIsEval (Rs fs) * surfaceVolume else 0)
         + (if phaseIdx = gasPhaseIdx cfg \<and> enableVaporizedOil cfg
               \<and> slot = compSlot cfg (oilCompIdx cfg)
            then decay lhsIsEval (Rv fs) * surfaceVolume else 0)
         + (if phaseIdx = gasPhaseIdx cfg \<and> enableVaporizedWater cfg
               \<and> slot = compSlot cfg (waterCompIdx cfg)
            then decay lhsIsEval (Rvw fs) * surfaceVolume else 0))"

text \<open>The slot of the trivial pseudo equation of an inactive phase under the
  three-phase numbering.\<close>

definition pseudoSlot :: "config \<Rightarrow> nat \<Rightarrow> nat \<Rightarrow> bool" where
  "pseudoSlot cfg phaseIdx slot =
     (\<not> phaseIsActive cfg phaseIdx \<and> indicesNumPhases cfg = 3
      \<and> slot = compSlot cfg (solventComponentIndex cfg phaseIdx))"

text \<open>The slots that one iteration of the phase loop of \<open>computeStorage\<close> writes.\<close>

definition storageTargets :: "config \<Rightarrow> nat \<Rightarrow> nat list" where
  "storageTargets cfg phaseIdx =
     (if \<not> phaseIsActive cfg phaseIdx then
        (if indicesNumPhases cfg = 3
         then [compSlot cfg (solventComponentIndex cfg phaseIdx)] else [])
      else
        [compSlot cfg (solventComponentIndex cfg phaseIdx)]
        @ (if phaseIdx = oilPhaseIdx cfg \<and> enableDissolvedGas cfg
           then [compSlot cfg (gasCompIdx cfg)] else [])
        @ (if phaseIdx = gasPhaseIdx cfg \<and> enableVaporizedOil cfg
           then [compSlot cfg (oilCompIdx cfg)] else [])
        @ (if phaseIdx = gasPhaseIdx cfg \<and> enableVaporizedWater cfg
           then [compSlot cfg (waterCompIdx cfg)] else []))"

text \<open>The factor that \<open>evalPhaseFluxes_\<close> puts on a contribution: one when surface
  volumes are conserved, the reference density otherwise.\<close>

definition densityFactor :: "config \<Rightarrow> nat \<Rightarrow> nat \<Rightarrow> evaluation" where
  "densityFactor cfg phaseIdx pvtRegionIdx =
     (if blackoilConserveSurfaceVolume cfg then 1
      else createConstant (referenceDensity cfg phaseIdx pvtRegionIdx))"

text \<open>The components that one call of \<open>evalPhaseFluxes_\<close> writes, each with the
  phase whose reference density the call multiplies it with.\<close>

definition fluxWrites :: "config \<Rightarrow> nat \<Rightarrow> (nat \<times> nat) list" where
  "fluxWrites cfg phaseIdx =
     [(solventComponentIndex cfg phaseIdx, phaseIdx)]
     @ (if phaseIdx = oilPhaseIdx cfg \<and> enableDissolvedGas cfg
        then [(gasCompIdx cfg, gasPhaseIdx cfg)] else [])
     @ (if phaseIdx \<noteq> oilPhaseIdx cfg \<and> phaseIdx = gasPhaseIdx cfg \<and> enableVaporizedOil cfg
        then [(oilCompIdx cfg, oilPhaseIdx cfg)] else [])
     @ (if phaseIdx \<noteq> oilPhaseIdx cfg \<and> phaseIdx = gasPhaseIdx cfg \<and> enableVaporizedWater cfg
        then [(waterCompIdx cfg, waterPhaseIdx cfg)] else [])"

text \<open>What one call of \<open>evalPhaseFluxes_\<close> adds to one slot of the flux vector.\<close>

definition fluxContribution ::
  "config \<Rightarrow> bool \<Rightarrow> nat \<Rightarrow> nat \<Rightarrow> evaluation \<Rightarrow> fluidState \<Rightarrow> nat \<Rightarrow> evaluation" where
  "fluxContribution cfg upIsEval phaseIdx pvtRegionIdx surfaceVolumeFlux upFs slot =
     (if slot = compSlot cfg (solventComponentIndex cfg phaseIdx)
      then surfaceVolumeFlux * densityFactor cfg phaseIdx pvtRegionIdx else 0)
     + (if (phaseIdx = oilPhaseIdx cfg \<and> enableDissolvedGas cfg)
           \<and> slot = compSlot cfg (gasCompIdx cfg)
        then getRs upIsEval upFs pvtRegionIdx * surfaceVolumeFlux
             * densityFactor cfg (gasPhaseIdx cfg) pvtRegionIdx else 0)
     + (if (phaseIdx \<noteq> oilPhaseIdx cfg \<and> phaseIdx = gasPhaseIdx cfg \<and> enableVaporizedOil cfg)
           \<and> slot = compSlot cfg (oilCompIdx cfg)
        then getRv upIsEval upFs pvtRegionIdx * surfaceVolumeFlux
             * densityFactor cfg (oilPhaseIdx cfg) pvtRegionIdx else 0)
     + (if (phaseIdx \<noteq> oilPhaseIdx cfg \<and> phaseIdx = gasPhaseIdx cfg \<and> enableVaporizedWater cfg)
           \<and> slot = compSlot cfg (waterCompIdx cfg)
        then getRvw upIsEval upFs pvtRegionIdx * surfaceVolumeFlux
             * densityFactor cfg (waterPhaseIdx cfg) pvtRegionIdx else 0)"

text \<open>The components that \<open>adaptMassConservationQuantities_\<close> treats, in its
  order, each with its phase and its \<open>Indices\<close> flag; and the slots of the enabled
  ones.\<close>

definition componentPhases :: "config \<Rightarrow> (nat \<times> nat \<times> bool) list" where
  "componentPhases cfg =
     [(waterCompIdx cfg, waterPhaseIdx cfg, waterEnabled cfg),
      (gasCompIdx cfg, gasPhaseIdx cfg, gasEnabled cfg),
      (oilCompIdx cfg, oilPhaseIdx cfg, oilEnabled cfg)]"

definition enabledSlots :: "config \<Rightarrow> nat list" where
  "enabledSlots cfg =
     map (\<lambda>(c, ph, en). compSlot cfg c) (filter (\<lambda>(c, ph, en). en) (componentPhases cfg))"

text \<open>The upstream intensive quantities and the upstream global index, as
  \<open>computeFlux\<close> selects them from \<open>upIdx\<close>.\<close>

definition upstreamQuantities :: "fluxLocals \<Rightarrow> nat \<Rightarrow> intensiveQuantities" where
  "upstreamQuantities L upIdx =
     (if upIdx = interiorDofIdx L then intQuantsIn L else intQuantsEx L)"

definition upstreamGlobalIndex :: "fluxLocals \<Rightarrow> nat \<Rightarrow> nat" where
  "upstreamGlobalIndex L upIdx =
     (if upIdx = interiorDofIdx L then globalIndexIn L else globalIndexEx L)"

text \<open>
  The Darcy flux and the distribution of a phase's flux in the words of the
  specification, on plain scalars: \<open>potentialDifference * upstreamMobility *
  transMultiplier * (- transmissibility / faceArea)\<close>, turned into a surface-volume
  flux by the upstream inverse formation-volume-factor and distributed with the
  upstream \<open>Rs\<close>, \<open>Rv\<close>, \<open>Rvw\<close> and the reference densities at the upstream PVT
  region.
\<close>

definition specDarcyFlux :: "problem \<Rightarrow> fluxLocals \<Rightarrow> nat \<Rightarrow> nat \<Rightarrow> scalar \<Rightarrow> scalar" where
  "specDarcyFlux prob L phaseIdx upIdx potentialDifference =
     potentialDifference
     * val (mobility (upstreamQuantities L upIdx) phaseIdx)
     * val (rockCompTransMultiplier prob (upstreamQuantities L upIdx) (upstreamGlobalIndex L upIdx))
     * (- trans' L / faceArea L)"

definition specFluxContribution ::
  "config \<Rightarrow> nat \<Rightarrow> intensiveQuantities \<Rightarrow> scalar \<Rightarrow> nat \<Rightarrow> scalar" where
  "specFluxContribution cfg phaseIdx up darcyFlux slot =
     (let fs = fluidState up;
          surfaceVolumeFlux = val (invB fs phaseIdx) * darcyFlux;
          rho = (\<lambda>ph. if blackoilConserveSurfaceVolume cfg then 1
                      else referenceDensity cfg ph (pvtRegionIndex up))
      in (if slot = compSlot cfg (solventComponentIndex cfg phaseIdx)
          then surfaceVolumeFlux * rho phaseIdx else 0)
         + (if phaseIdx = oilPhaseIdx cfg \<and> enableDissolvedGas cfg
               \<and> slot = compSlot cfg (gasCompIdx cfg)
            then val (Rs fs) * surfaceVolumeFlux * rho (gasPhaseIdx cfg) else 0)
         + (if phaseIdx = gasPhaseIdx cfg \<and> enableVaporizedOil cfg
               \<and> slot = compSlot cfg (oilCompIdx cfg)
            then val (Rv fs) * surfaceVolumeFlux * rho (oilPhaseIdx cfg) else 0)
         + (if phaseIdx = gasPhaseIdx cfg \<and> enableVaporizedWater cfg
               \<and> slot = compSlot cfg (waterCompIdx cfg)
            then val (Rvw fs) * surfaceVolumeFlux * rho (waterPhaseIdx cfg) else 0))"

text \<open>The value that one iteration of the phase loop of \<open>computeFlux\<close> adds to a
  slot: nothing for an inactive phase, otherwise the specification's distribution of the
  Darcy flux for the upstream index and pressure difference that
  \<open>calculatePhasePressureDiff_\<close> returns.\<close>

definition phaseFluxValue ::
  "config \<Rightarrow> problem \<Rightarrow> pressureDiff \<Rightarrow> fluxLocals \<Rightarrow> nat \<Rightarrow> nat \<Rightarrow> nat \<Rightarrow> nat \<Rightarrow> scalar" where
  "phaseFluxValue cfg prob calculatePhasePressureDiff L scvfIdx timeIdx slot phaseIdx =
     (if \<not> phaseIsActive cfg phaseIdx then 0
      else
        case calculatePhasePressureDiff (intQuantsIn L) (intQuantsEx L) scvfIdx timeIdx
               phaseIdx (interiorDofIdx L) (exteriorDofIdx L) (Vin L) (Vex L)
               (globalIndexIn L) (globalIndexEx L) (distZ L * g L) (thpres L)
        of (upIdx, dnIdx, pressureDifference) \<Rightarrow>
          specFluxContribution cfg phaseIdx (upstreamQuantities L upIdx)
            (specDarcyFlux prob L phaseIdx upIdx (val pressureDifference)) slot)"

section \<open>Example data\<close>

text \<open>
  The three-phase black-oil layout: phases water, oil, gas with indices 0, 1, 2,
  components oil, water, gas with indices 0, 1, 2, three equations from slot 0 and the
  identity as the canonical-to-active map.
\<close>

definition exampleCfg :: config where
  "exampleCfg =
     \<lparr> numEq = 3, numPhases = 3, conti0EqIdx = 0, indicesNumPhases = 3,
       canonicalToActiveComponentIndex = (\<lambda>c. c),
       waterEnabled = True, gasEnabled = True, oilEnabled = True,
       contiEnergyEqIdx = 2,
       blackoilConserveSurfaceVolume = True, enableEnergy = True,
       blackOilEnergyScalingFactor = 10,
       gasPhaseIdx = 2, oilPhaseIdx = 1, waterPhaseIdx = 0,
       gasCompIdx = 2, oilCompIdx = 0, waterCompIdx = 1,
       phaseIsActive = (\<lambda>p. p < 3),
       solventComponentIndex = (\<lambda>p. if p = 0 then 1 else if p = 1 then 0 else 2),
       enableDissolvedGas = True, enableVaporizedOil = True, enableVaporizedWater = False,
       referenceDensity = (\<lambda>p r. if r = 0 then 2 else 3) \<rparr>"

definition exampleFluidState :: fluidState where
  "exampleFluidState =
     \<lparr> saturation = (\<lambda>p. createVariable 2 0), invB = (\<lambda>p. createConstant 3),
       Rs = createConstant 5, Rv = createConstant 7, Rvw = createConstant 11 \<rparr>"

definition exampleIntQuants :: intensiveQuantities where
  "exampleIntQuants =
     \<lparr> fluidState = exampleFluidState, porosity = createConstant 1,
       mobility = (\<lambda>p. createVariable 2 1), pvtRegionIndex = 0 \<rparr>"

definition exampleIntQuantsEx :: intensiveQuantities where
  "exampleIntQuantsEx =
     \<lparr> fluidState = exampleFluidState, porosity = createConstant 1,
       mobility = (\<lambda>p. createVariable 3 1), pvtRegionIndex = 1 \<rparr>"

definition exampleProblem :: problem where
  "exampleProblem =
     \<lparr> transmissibility = (\<lambda>i j. 4), thresholdPressure = (\<lambda>i j. 0), gravityDown = 0,
       dofCenterDepth = (\<lambda>d t. 0),
       rockCompTransMultiplier = (\<lambda>iq gi. createConstant 1),
       source = (\<lambda>src d t. addAt 0 1 src) \<rparr>"

definition exampleElemCtx :: elementContext where
  "exampleElemCtx =
     \<lparr> problem = exampleProblem,
       intensiveQuantitiesAt = (\<lambda>d t. if d = 0 then exampleIntQuants else exampleIntQuantsEx),
       dofVolume = (\<lambda>d t. 1), focusDofIndex = 0,
       interiorIndex = (\<lambda>f. 0), exteriorIndex = (\<lambda>f. 1),
       scvfArea = (\<lambda>f. 2), globalSpaceIndex = (\<lambda>d. d) \<rparr>"

text \<open>A pressure-difference function for counter-current flow: the oil phase flows
  from the exterior cell, the other phases from the interior cell.\<close>

definition examplePressureDiff :: pressureDiff where
  "examplePressureDiff iqIn iqEx scvfIdx timeIdx phaseIdx inIdx exIdx vIn vEx gIn gEx dzg th =
     (if phaseIdx = 1 then (exIdx, inIdx, createConstant 6)
      else (inIdx, exIdx, createConstant (- 6)))"

text \<open>A pressure-difference function with no driving potential: the value is zero,
  the derivatives are not.\<close>

definition exampleZeroPressureDiff :: pressureDiff where
  "exampleZeroPressureDiff iqIn iqEx scvfIdx timeIdx phaseIdx inIdx exIdx vIn vEx gIn gEx dzg th =
     (inIdx, exIdx, createVariable 0 0)"

text \<open>The three-phase layout with the water phase switched off.\<close>

definition exampleNoWaterCfg :: config where
  "exampleNoWaterCfg = exampleCfg\<lparr>phaseIsActive := (\<lambda>p. p = 1 \<or> p = 2)\<rparr>"

text \<open>The example layout with masses conserved.\<close>

definition exampleMassCfg :: config where
  "exampleMassCfg = exampleCfg\<lparr>blackoilConserveSurfaceVolume := False\<rparr>"

text \<open>A storage module that adds one to slot 0, and the example element context with
  the exterior dof of the face as focus dof.\<close>

definition exampleOilSlotModule :: storageModule where
  "exampleOilSlotModule storage intQuants = addAt 0 (createConstant 1) storage"

definition exampleExteriorFocusCtx :: elementContext where
  "exampleExteriorFocusCtx = exampleElemCtx\<lparr>focusDofIndex := 1\<rparr>"

text \<open>The layout without the water phase with masses conserved, and the layout
  without the water phase in which vaporized water is switched on all the same.\<close>

definition exampleNoWaterMassCfg :: config where
  "exampleNoWaterMassCfg = exampleNoWaterCfg\<lparr>blackoilConserveSurfaceVolume := False\<rparr>"

definition exampleNoWaterVaporizedCfg :: config where
  "exampleNoWaterVaporizedCfg = exampleNoWaterCfg\<lparr>enableVaporizedWater := True\<rparr>"

section \<open>Facts about evaluations and vectors\<close>

lemma val_simps [simp]:
  "val (a + b) = val a + val b" "val (a * b) = val a * val b" "val 0 = 0" "val 1 = 1"
  "val (a - b) = val a - val b" "val (- a) = - val a"
  "val (createConstant x) = x" "val (createVariable x i) = x"
  by (simp_all add: plus_evaluation_def times_evaluation_def zero_evaluation_def
      one_evaluation_def minus_evaluation_def uminus_evaluation_def createConstant_def
      createVariable_def)

lemma deriv_simps [simp]:
  "deriv (a + b) i = deriv a i + deriv b i"
  "deriv (a * b) i = val a * deriv b i + deriv a i * val b"
  "deriv 0 i = 0" "deriv 1 i = 0"
  "deriv (a - b) i = deriv a i - deriv b i" "deriv (- a) i = - deriv a i"
  "deriv (createConstant x) i = 0" "deriv (createVariable x k) i = (if i = k then 1 else 0)"
  by (simp_all add: plus_evaluation_def times_evaluation_def zero_evaluation_def
      one_evaluation_def minus_evaluation_def uminus_evaluation_def createConstant_def
      createVariable_def)

lemma evaluation_eqI: "val a = val b \<Longrightarrow> (\<And>i. deriv a i = deriv b i) \<Longrightarrow> a = b"
  by (cases a, cases b) (simp add: fun_eq_iff)

lemma createConstant_0 [simp]: "createConstant 0 = 0"
  by (simp add: createConstant_def zero_evaluation_def)

lemma val_decay [simp]: "val (decay b x) = val x"
  by (simp add: decay_def)

lemma length_setAt [simp]: "length (setAt i v xs) = length xs"
  by (simp add: setAt_def)

lemma length_addAt [simp]: "length (addAt i v xs) = length xs"
  by (simp add: addAt_def)

lemma length_mulAt [simp]: "length (mulAt i v xs) = length xs"
  by (simp add: mulAt_def)

lemma nth_setAt: "j < length xs \<Longrightarrow> setAt i v xs ! j = (if j = i then v else xs ! j)"
  by (simp add: setAt_def)

lemma nth_addAt: "j < length xs \<Longrightarrow> addAt i v xs ! j = (if j = i then xs ! j + v else xs ! j)"
  by (simp add: addAt_def)

lemma nth_mulAt: "j < length xs \<Longrightarrow> mulAt i v xs ! j = (if j = i then xs ! j * v else xs ! j)"
  by (simp add: mulAt_def)

lemma addAt_zero [simp]: "addAt i (0::evaluation) xs = xs"
  by (simp add: addAt_def)

lemma nth_addAt_if:
  "s < length xs \<Longrightarrow>
   (if c then addAt i v xs else xs) ! s = xs ! s + (if c \<and> s = i then v else (0::evaluation))"
  by (simp add: nth_addAt)

lemma length_addAt_if [simp]: "length (if c then addAt i v xs else xs) = length xs"
  by simp

lemma upt3: "[0..<3] = [0, 1, 2]"
  by (simp add: upt_rec)

section \<open>The phase loop of computeStorage\<close>

lemma length_computeStorage_phase [simp]:
  "length (computeStorage_phase cfg lhs iq t p st) = length st"
  by (simp add: computeStorage_phase_def Let_def)

lemma computeStorage_phase_active:
  assumes "phaseIsActive cfg p" "s < length st"
  shows "computeStorage_phase cfg lhs iq t p st ! s = st ! s + storageContribution cfg lhs iq p s"
proof -
  define fs where "fs = fluidState iq"
  define sv where
    "sv = decay lhs (saturation fs p) * decay lhs (invB fs p) * decay lhs (porosity iq)"
  define s1 where "s1 = addAt (compSlot cfg (solventComponentIndex cfg p)) sv st"
  define s2 where "s2 = (if p = oilPhaseIdx cfg \<and> enableDissolvedGas cfg
     then addAt (compSlot cfg (gasCompIdx cfg)) (decay lhs (Rs fs) * sv) s1 else s1)"
  define s3 where "s3 = (if p = gasPhaseIdx cfg \<and> enableVaporizedOil cfg
     then addAt (compSlot cfg (oilCompIdx cfg)) (decay lhs (Rv fs) * sv) s2 else s2)"
  define s4 where "s4 = (if p = gasPhaseIdx cfg \<and> enableVaporizedWater cfg
     then addAt (compSlot cfg (waterCompIdx cfg)) (decay lhs (Rvw fs) * sv) s3 else s3)"
  have eq: "computeStorage_phase cfg lhs iq t p st = s4"
    using assms(1)
    unfolding computeStorage_phase_def Let_def s4_def s3_def s2_def s1_def sv_def fs_def
    by simp
  have l1: "s < length s1" using assms(2) by (simp add: s1_def)
  have l2: "s < length s2" using l1 unfolding s2_def by simp
  have l3: "s < length s3" using l2 unfolding s3_def by simp
  have e1: "s1 ! s = st ! s + (if s = compSlot cfg (solventComponentIndex cfg p) then sv else 0)"
    using assms(2) by (simp add: s1_def nth_addAt)
  have e2: "s2 ! s = s1 ! s + (if (p = oilPhaseIdx cfg \<and> enableDissolvedGas cfg)
      \<and> s = compSlot cfg (gasCompIdx cfg) then decay lhs (Rs fs) * sv else 0)"
    unfolding s2_def by (rule nth_addAt_if [OF l1])
  have e3: "s3 ! s = s2 ! s + (if (p = gasPhaseIdx cfg \<and> enableVaporizedOil cfg)
      \<and> s = compSlot cfg (oilCompIdx cfg) then decay lhs (Rv fs) * sv else 0)"
    unfolding s3_def by (rule nth_addAt_if [OF l2])
  have e4: "s4 ! s = s3 ! s + (if (p = gasPhaseIdx cfg \<and> enableVaporizedWater cfg)
      \<and> s = compSlot cfg (waterCompIdx cfg) then decay lhs (Rvw fs) * sv else 0)"
    unfolding s4_def by (rule nth_addAt_if [OF l3])
  have c: "storageContribution cfg lhs iq p s =
     (if s = compSlot cfg (solventComponentIndex cfg p) then sv else 0)
     + (if (p = oilPhaseIdx cfg \<and> enableDissolvedGas cfg) \<and> s = compSlot cfg (gasCompIdx cfg)
        then decay lhs (Rs fs) * sv else 0)
     + (if (p = gasPhaseIdx cfg \<and> enableVaporizedOil cfg) \<and> s = compSlot cfg (oilCompIdx cfg)
        then decay lhs (Rv fs) * sv else 0)
     + (if (p = gasPhaseIdx cfg \<and> enableVaporizedWater cfg) \<and> s = compSlot cfg (waterCompIdx cfg)
        then decay lhs (Rvw fs) * sv else 0)"
    unfolding storageContribution_def Let_def sv_def fs_def by (simp only: conj_assoc)
  show ?thesis
    unfolding eq e4 e3 e2 e1 c by (simp only: add.assoc)
qed

lemma computeStorage_phase_inactive:
  assumes "\<not> phaseIsActive cfg p" "\<not> pseudoSlot cfg p s" "s < length st"
  shows "computeStorage_phase cfg lhs iq t p st ! s = st ! s"
proof (cases "indicesNumPhases cfg = 3")
  case True
  with assms(1,2) have ne: "s \<noteq> compSlot cfg (solventComponentIndex cfg p)"
    by (simp add: pseudoSlot_def)
  show ?thesis
    using assms(1,3) True ne by (simp add: computeStorage_phase_def Let_def nth_setAt)
next
  case False
  then show ?thesis
    using assms(1) by (simp add: computeStorage_phase_def Let_def)
qed

lemma fold_computeStorage_phase:
  assumes "s < length st" "\<forall>p\<in>set ps. \<not> pseudoSlot cfg p s"
  shows "fold (computeStorage_phase cfg lhs iq t) ps st ! s
         = st ! s + (\<Sum>p\<leftarrow>ps. if phaseIsActive cfg p
                                then storageContribution cfg lhs iq p s else 0)"
  using assms
proof (induction ps arbitrary: st)
  case Nil
  then show ?case by simp
next
  case (Cons p ps)
  have len: "s < length (computeStorage_phase cfg lhs iq t p st)"
    using Cons.prems(1) by simp
  have np: "\<not> pseudoSlot cfg p s" and rest: "\<forall>q\<in>set ps. \<not> pseudoSlot cfg q s"
    using Cons.prems(2) by simp_all
  have step: "computeStorage_phase cfg lhs iq t p st ! s
              = st ! s + (if phaseIsActive cfg p then storageContribution cfg lhs iq p s else 0)"
  proof (cases "phaseIsActive cfg p")
    case True
    then show ?thesis using computeStorage_phase_active [OF True Cons.prems(1)] by simp
  next
    case False
    then show ?thesis using computeStorage_phase_inactive [OF False np Cons.prems(1)] by simp
  qed
  have "fold (computeStorage_phase cfg lhs iq t) (p # ps) st ! s
        = fold (computeStorage_phase cfg lhs iq t) ps (computeStorage_phase cfg lhs iq t p st) ! s"
    by simp
  also have "\<dots> = computeStorage_phase cfg lhs iq t p st ! s
        + (\<Sum>q\<leftarrow>ps. if phaseIsActive cfg q then storageContribution cfg lhs iq q s else 0)"
    by (rule Cons.IH [OF len rest])
  finally show ?case
    by (simp only: step add.assoc list.map sum_list.Cons)
qed

lemma computeStorage_surface_volume:
  "blackoilConserveSurfaceVolume cfg \<Longrightarrow>
   computeStorage cfg mods lhs st iq t
   = addStorageModules mods iq (computeStorage_phases cfg lhs iq t)"
  by (simp add: computeStorage_def adaptMassConservationQuantities_def)

section \<open>Storage accumulation\<close>

text \<open>
  C2. For every control volume (intensive quantities) and every time level: with
  surface volumes conserved, \<open>computeStorage\<close> hands the result of its phase loop to
  the modules; and every slot that is not the pseudo-equation slot of an inactive phase
  holds, after the loop, the sum over the active phases of what the phase contributes
  to the slot: \<open>saturation * invB * porosity\<close> in the phase's own component slot,
  \<open>Rs\<close> times it in the gas slot for oil with dissolved gas, \<open>Rv\<close> times it in the
  oil slot and \<open>Rvw\<close> times it in the water slot for gas with vaporized oil and
  vaporized water.
\<close>

theorem computeStorage_accumulates:
  assumes "s < numEq cfg" and "\<forall>p<numPhases cfg. \<not> pseudoSlot cfg p s"
  shows "(blackoilConserveSurfaceVolume cfg \<longrightarrow>
            computeStorage cfg mods lhs st iq t
            = addStorageModules mods iq (computeStorage_phases cfg lhs iq t))
         \<and> computeStorage_phases cfg lhs iq t ! s
           = (\<Sum>p\<leftarrow>[0..<numPhases cfg]. if phaseIsActive cfg p
                                          then storageContribution cfg lhs iq p s else 0)"
proof -
  have a: "s < length (replicate (numEq cfg) (0::evaluation))" using assms(1) by simp
  have b: "\<forall>p\<in>set [0..<numPhases cfg]. \<not> pseudoSlot cfg p s" using assms(2) by simp
  have "computeStorage_phases cfg lhs iq t ! s
        = (\<Sum>p\<leftarrow>[0..<numPhases cfg]. if phaseIsActive cfg p
                                       then storageContribution cfg lhs iq p s else 0)"
    unfolding computeStorage_phases_def
    using fold_computeStorage_phase [OF a b, of lhs iq t] assms(1) by simp
  then show ?thesis
    using computeStorage_surface_volume by blast
qed

theorem computeStorage_accumulates_witness:
  "computeStorage exampleCfg [] True [] exampleIntQuants 1
   = computeStorage_phases exampleCfg True exampleIntQuants 1
   \<and> val (computeStorage_phases exampleCfg True exampleIntQuants 1 ! 2) = 36
   \<and> deriv (computeStorage_phases exampleCfg True exampleIntQuants 1 ! 2) 0 = 18"
  using computeStorage_accumulates [of 2 exampleCfg "[]" True "[]" exampleIntQuants 1]
  by (simp add: exampleCfg_def pseudoSlot_def storageContribution_def compSlot_def upt3
      exampleIntQuants_def exampleFluidState_def decay_def addStorageModules_def)

section \<open>The flux of a phase without driving potential\<close>

lemma upwindPhaseFlux_zero:
  "val pressureDifference = 0 \<Longrightarrow>
   upwindPhaseFlux cfg prob L phaseIdx upIdx pressureDifference flux = flux"
  by (simp add: upwindPhaseFlux_def evalPhaseFluxes_def Let_def)

text \<open>
  C5. For every face and every phase: when the pressure difference that
  \<open>calculatePhasePressureDiff_\<close> returns (adjusted for gravity and threshold pressure)
  has the value zero, the iteration of the phase leaves the flux vector as it was. The
  phase contributes exactly zero, whatever the mobility and the transmissibility
  multiplier are.
\<close>

theorem zero_potential_contributes_nothing:
  assumes "calc (intQuantsIn L) (intQuantsEx L) scvfIdx timeIdx phaseIdx (interiorDofIdx L)
             (exteriorDofIdx L) (Vin L) (Vex L) (globalIndexIn L) (globalIndexEx L)
             (distZ L * g L) (thpres L) = (upIdx, dnIdx, pressureDifference)"
    and "val pressureDifference = 0"
  shows "computeFlux_phase cfg prob calc L scvfIdx timeIdx phaseIdx flux = flux"
  using assms by (simp add: computeFlux_phase_def upwindPhaseFlux_zero)

theorem zero_potential_contributes_nothing_witness:
  "computeFlux_phase exampleCfg exampleProblem exampleZeroPressureDiff
     (computeFlux_locals exampleElemCtx 0 0) 0 0 1 [1, 2, 3] = [1, 2, 3]"
  using zero_potential_contributes_nothing [of exampleZeroPressureDiff
      "computeFlux_locals exampleElemCtx 0 0" 0 0 1 0 1 "createVariable 0 0"
      exampleCfg exampleProblem "[1, 2, 3]"]
  by (simp add: exampleZeroPressureDiff_def computeFlux_locals_def exampleElemCtx_def Let_def)

section \<open>Lengths\<close>

lemma length_adaptMassConservationQuantities [simp]:
  "length (adaptMassConservationQuantities cfg v r) = length v"
  by (simp add: adaptMassConservationQuantities_def Let_def)

lemma length_computeStorage_phases [simp]:
  "length (computeStorage_phases cfg lhs iq t) = numEq cfg"
proof -
  have "length (fold (computeStorage_phase cfg lhs iq t) ps st) = length st" for ps st
    by (induction ps arbitrary: st) simp_all
  then show ?thesis by (simp add: computeStorage_phases_def)
qed

section \<open>The order of computeSource\<close>

text \<open>
  C8. \<open>computeSource\<close> first hands the output vector to the problem's source
  callback, then to the module's \<open>addSource\<close>, and last, when energy is enabled,
  multiplies the slot of the energy equation by the scaling factor: every slot of the
  result is the slot that the callback and then the module left, and the energy slot
  is that slot times the factor, so what the module added to the energy equation is
  scaled as well.
\<close>

theorem computeSource_order:
  "length (computeSource cfg micpAddSource src elemCtx dofIdx timeIdx)
     = length (micpAddSource (source (problem elemCtx) src dofIdx timeIdx) elemCtx dofIdx timeIdx)
   \<and> (\<forall>j < length (micpAddSource (source (problem elemCtx) src dofIdx timeIdx) elemCtx dofIdx timeIdx).
        computeSource cfg micpAddSource src elemCtx dofIdx timeIdx ! j
        = (if enableEnergy cfg \<and> j = contiEnergyEqIdx cfg
           then micpAddSource (source (problem elemCtx) src dofIdx timeIdx) elemCtx dofIdx timeIdx ! j
                * createConstant (blackOilEnergyScalingFactor cfg)
           else micpAddSource (source (problem elemCtx) src dofIdx timeIdx) elemCtx dofIdx timeIdx ! j))"
  by (simp add: computeSource_def Let_def nth_mulAt)

theorem computeSource_order_witness:
  "map val (computeSource exampleCfg (\<lambda>s c d t. addAt 2 (createConstant 1) s)
      [createConstant 1, createConstant 2, createConstant 3] exampleElemCtx 0 0) = [2, 2, 40]"
  using computeSource_order [of exampleCfg "\<lambda>s c d t. addAt 2 (createConstant 1) s"
      "[createConstant 1, createConstant 2, createConstant 3]" exampleElemCtx 0 0]
  by (simp add: computeSource_def exampleCfg_def exampleElemCtx_def exampleProblem_def
      addAt_def mulAt_def)

section \<open>Time levels\<close>

text \<open>
  C9. \<open>computeFlux\<close> is defined for the first time level only: at any other time
  index its assertion fails, so a flux is returned only for \<open>timeIdx = 0\<close> (and is
  returned there for a face whose interior and exterior dof differ).
  \<open>computeStorage\<close> has no such precondition: it returns a vector of \<open>numEq\<close>
  entries at every time level.
\<close>

theorem computeFlux_requires_first_time_level:
  "(timeIdx \<noteq> 0 \<longrightarrow>
      computeFlux cfg mods calc flux elemCtx scvfIdx timeIdx = Inl AssertTimeIdxIsZero)
   \<and> (\<forall>f. computeFlux cfg mods calc flux elemCtx scvfIdx timeIdx = Inr f \<longrightarrow> timeIdx = 0)
   \<and> (timeIdx = 0 \<and> interiorIndex elemCtx scvfIdx \<noteq> exteriorIndex elemCtx scvfIdx \<longrightarrow>
        (\<exists>f. computeFlux cfg mods calc flux elemCtx scvfIdx timeIdx = Inr f))
   \<and> length (computeStorage cfg [] lhs storage intQuants timeIdx) = numEq cfg"
  by (simp add: computeFlux_def computeStorage_def addStorageModules_def Let_def)

theorem computeFlux_requires_first_time_level_witness:
  "computeFlux exampleCfg [] examplePressureDiff [] exampleElemCtx 0 1 = Inl AssertTimeIdxIsZero
   \<and> (\<exists>f. computeFlux exampleCfg [] examplePressureDiff [] exampleElemCtx 0 0 = Inr f)
   \<and> length (computeStorage exampleCfg [] True [] exampleIntQuants 1) = 3"
  using computeFlux_requires_first_time_level [of 1 exampleCfg "[]" examplePressureDiff "[]"
      exampleElemCtx 0 True "[]" exampleIntQuants]
    computeFlux_requires_first_time_level [of 0 exampleCfg "[]" examplePressureDiff "[]"
      exampleElemCtx 0 True "[]" exampleIntQuants]
  by (simp add: exampleCfg_def exampleElemCtx_def)

section \<open>The initial content of the output vector\<close>

text \<open>
  C10. \<open>computeStorage\<close> and \<open>computeFlux\<close> assign zero to the output vector
  before they accumulate: two calls that differ only in the initial content of the
  output vector return the same result. \<open>computeSource\<close> does not reset the vector
  but hands it to the problem's callback: there are a callback and two initial vectors
  for which the results differ.
\<close>

theorem output_reset:
  "computeStorage cfg mods lhs storage intQuants timeIdx
     = computeStorage cfg mods lhs storage' intQuants timeIdx
   \<and> computeFlux cfg fmods calc flux elemCtx scvfIdx timeIdx
     = computeFlux cfg fmods calc flux' elemCtx scvfIdx timeIdx
   \<and> (\<exists>ctx micp a b. length a = length b
        \<and> computeSource cfg micp a ctx dofIdx timeIdx \<noteq> computeSource cfg micp b ctx dofIdx timeIdx)"
proof -
  define n where "n = contiEnergyEqIdx cfg + 2"
  define ctx where "ctx = exampleElemCtx\<lparr>problem := exampleProblem\<lparr>source := (\<lambda>s d t. s)\<rparr>\<rparr>"
  define micp :: sourceModule where "micp = (\<lambda>s c d t. s)"
  define a :: eqVector where "a = replicate n 0"
  define b :: eqVector where "b = replicate n 1"
  have lt: "contiEnergyEqIdx cfg + 1 < n"
    by (simp add: n_def)
  have key: "computeSource cfg micp v ctx dofIdx timeIdx ! (contiEnergyEqIdx cfg + 1)
             = v ! (contiEnergyEqIdx cfg + 1)" if "contiEnergyEqIdx cfg + 1 < length v" for v
    using that by (simp add: computeSource_def ctx_def micp_def Let_def nth_mulAt)
  have ra: "computeSource cfg micp a ctx dofIdx timeIdx ! (contiEnergyEqIdx cfg + 1) = 0"
    using lt key [of a] by (simp add: a_def del: replicate_Suc)
  have rb: "computeSource cfg micp b ctx dofIdx timeIdx ! (contiEnergyEqIdx cfg + 1) = 1"
    using lt key [of b] by (simp add: b_def del: replicate_Suc)
  have "computeSource cfg micp a ctx dofIdx timeIdx \<noteq> computeSource cfg micp b ctx dofIdx timeIdx"
    using ra rb by (metis zero_neq_one)
  moreover have "length a = length b"
    by (simp add: a_def b_def)
  ultimately have src: "\<exists>ctx micp a b. length a = length b
        \<and> computeSource cfg micp a ctx dofIdx timeIdx \<noteq> computeSource cfg micp b ctx dofIdx timeIdx"
    by blast
  have st: "computeStorage cfg mods lhs storage intQuants timeIdx
     = computeStorage cfg mods lhs storage' intQuants timeIdx"
    by (simp add: computeStorage_def)
  have fl: "computeFlux cfg fmods calc flux elemCtx scvfIdx timeIdx
     = computeFlux cfg fmods calc flux' elemCtx scvfIdx timeIdx"
    by (simp add: computeFlux_def)
  from st fl src show ?thesis by blast
qed

theorem output_reset_witness:
  "computeStorage exampleCfg [] True [createConstant 1, createConstant 2, createConstant 3]
       exampleIntQuants 0
     = computeStorage exampleCfg [] True [createConstant 4, createConstant 5, createConstant 6]
         exampleIntQuants 0
   \<and> computeFlux exampleCfg [] examplePressureDiff
         [createConstant 1, createConstant 2, createConstant 3] exampleElemCtx 0 0
     = computeFlux exampleCfg [] examplePressureDiff
         [createConstant 4, createConstant 5, createConstant 6] exampleElemCtx 0 0
   \<and> map val (computeSource exampleCfg (\<lambda>s c d t. s)
         [createConstant 1, createConstant 2, createConstant 3] exampleElemCtx 0 0) = [2, 2, 30]
   \<and> map val (computeSource exampleCfg (\<lambda>s c d t. s)
         [createConstant 4, createConstant 5, createConstant 6] exampleElemCtx 0 0) = [5, 5, 60]"
  using output_reset [of exampleCfg "[]" True "[createConstant 1, createConstant 2, createConstant 3]"
      exampleIntQuants 0 "[createConstant 4, createConstant 5, createConstant 6]"
      "[]" examplePressureDiff "[createConstant 1, createConstant 2, createConstant 3]"
      exampleElemCtx 0 "[createConstant 4, createConstant 5, createConstant 6]" 0]
  by (simp add: computeSource_def exampleCfg_def exampleElemCtx_def exampleProblem_def
      addAt_def mulAt_def)

section \<open>The pseudo equation of an inactive phase\<close>

lemma computeStorage_phase_untouched:
  assumes "s \<notin> set (storageTargets cfg q)" "s < length st"
  shows "computeStorage_phase cfg lhs iq t q st ! s = st ! s"
proof (cases "phaseIsActive cfg q")
  case True
  have m: "s \<notin> set ([compSlot cfg (solventComponentIndex cfg q)]
        @ (if q = oilPhaseIdx cfg \<and> enableDissolvedGas cfg
           then [compSlot cfg (gasCompIdx cfg)] else [])
        @ (if q = gasPhaseIdx cfg \<and> enableVaporizedOil cfg
           then [compSlot cfg (oilCompIdx cfg)] else [])
        @ (if q = gasPhaseIdx cfg \<and> enableVaporizedWater cfg
           then [compSlot cfg (waterCompIdx cfg)] else []))"
    using assms(1) True unfolding storageTargets_def by simp
  have n1: "s \<noteq> compSlot cfg (solventComponentIndex cfg q)"
    using m by simp
  have n2: "\<not> (q = oilPhaseIdx cfg \<and> enableDissolvedGas cfg \<and> s = compSlot cfg (gasCompIdx cfg))"
    using m by (auto split: if_splits)
  have n3: "\<not> (q = gasPhaseIdx cfg \<and> enableVaporizedOil cfg \<and> s = compSlot cfg (oilCompIdx cfg))"
    using m by (auto split: if_splits)
  have n4: "\<not> (q = gasPhaseIdx cfg \<and> enableVaporizedWater cfg \<and> s = compSlot cfg (waterCompIdx cfg))"
    using m by (auto split: if_splits)
  have "storageContribution cfg lhs iq q s = 0"
    unfolding storageContribution_def Let_def
    by (simp only: n1 n2 n3 n4 if_False add_0_left)
  then show ?thesis
    using computeStorage_phase_active [OF True assms(2), of lhs iq t] by simp
next
  case False
  have "\<not> pseudoSlot cfg q s"
    using assms(1) False by (auto simp: storageTargets_def pseudoSlot_def split: if_splits)
  then show ?thesis
    using computeStorage_phase_inactive [OF False _ assms(2)] by simp
qed

lemma fold_computeStorage_phase_untouched:
  assumes "s < length st" "\<forall>q\<in>set qs. s \<notin> set (storageTargets cfg q)"
  shows "fold (computeStorage_phase cfg lhs iq t) qs st ! s = st ! s"
  using assms
proof (induction qs arbitrary: st)
  case Nil
  then show ?case by simp
next
  case (Cons q qs)
  have len: "s < length (computeStorage_phase cfg lhs iq t q st)"
    using Cons.prems(1) by simp
  have "fold (computeStorage_phase cfg lhs iq t) (q # qs) st ! s
        = computeStorage_phase cfg lhs iq t q st ! s"
    using Cons.IH [OF len] Cons.prems(2) by simp
  also have "\<dots> = st ! s"
    using computeStorage_phase_untouched [of s cfg q st lhs iq t] Cons.prems by simp
  finally show ?case .
qed

lemma length_fold_computeStorage_phase [simp]:
  "length (fold (computeStorage_phase cfg lhs iq t) ps st) = length st"
  by (induction ps arbitrary: st) simp_all

lemma computeStorage_phase_pseudo:
  assumes "\<not> phaseIsActive cfg p" "indicesNumPhases cfg = 3"
  shows "computeStorage_phase cfg lhs iq t p st
         = setAt (compSlot cfg (solventComponentIndex cfg p))
             (if t = 0 then decay lhs (createVariable 0 (compSlot cfg (solventComponentIndex cfg p)))
              else 0) st"
  using assms by (simp add: computeStorage_phase_def Let_def)

lemma computeStorage_phases_pseudo:
  assumes "\<not> phaseIsActive cfg p" and "indicesNumPhases cfg = 3"
    and "slot = compSlot cfg (solventComponentIndex cfg p)"
  shows "computeStorage_phase cfg True iq t p st
           = setAt slot (if t = 0 then createVariable 0 slot else 0) st
         \<and> (p < numPhases cfg \<and> slot < numEq cfg
              \<and> (\<forall>q. p < q \<and> q < numPhases cfg \<longrightarrow> slot \<notin> set (storageTargets cfg q))
            \<longrightarrow> computeStorage_phases cfg True iq t ! slot
                 = (if t = 0 then createVariable 0 slot else 0))"
proof -
  let ?f = "computeStorage_phase cfg True iq t"
  let ?x = "if t = 0 then createVariable 0 slot else 0"
  have step: "?f p st = setAt slot ?x st" for st
    using computeStorage_phase_pseudo [OF assms(1,2), of True iq t st] assms(3)
    by (simp add: decay_def)
  have loop: "computeStorage_phases cfg True iq t ! slot = ?x"
    if a: "p < numPhases cfg" and b: "slot < numEq cfg"
      and c: "\<forall>q. p < q \<and> q < numPhases cfg \<longrightarrow> slot \<notin> set (storageTargets cfg q)"
  proof -
    have split: "[0..<numPhases cfg] = [0..<p] @ p # [Suc p..<numPhases cfg]"
    proof -
      have "[0..<p + (numPhases cfg - p)] = [0..<p] @ [p..<p + (numPhases cfg - p)]"
        by (rule upt_add_eq_append) simp
      moreover have "p + (numPhases cfg - p) = numPhases cfg"
        using a by simp
      ultimately have "[0..<numPhases cfg] = [0..<p] @ [p..<numPhases cfg]"
        by simp
      then show ?thesis
        using a by (simp add: upt_conv_Cons)
    qed
    define st0 where "st0 = fold ?f [0..<p] (replicate (numEq cfg) 0)"
    have l0: "slot < length st0"
      using b by (simp add: st0_def)
    have l1: "slot < length (?f p st0)"
      using l0 by simp
    have later: "\<forall>q\<in>set [Suc p..<numPhases cfg]. slot \<notin> set (storageTargets cfg q)"
      using c by simp
    have "computeStorage_phases cfg True iq t = fold ?f [Suc p..<numPhases cfg] (?f p st0)"
      unfolding computeStorage_phases_def st0_def by (subst split) simp
    then have "computeStorage_phases cfg True iq t ! slot = ?f p st0 ! slot"
      using fold_computeStorage_phase_untouched [OF l1 later] by simp
    also have "\<dots> = ?x"
      using l0 by (simp only: step nth_setAt) simp
    finally show ?thesis .
  qed
  from step loop show ?thesis by blast
qed

section \<open>The closed form of evalPhaseFluxes\<close>

lemma evalPhaseFluxes_steps:
  "evalPhaseFluxes cfg u flux p r svf fs =
     (let f1 = addAt (compSlot cfg (solventComponentIndex cfg p)) (svf * densityFactor cfg p r) flux;
          f2 = (if p = oilPhaseIdx cfg \<and> enableDissolvedGas cfg
                then addAt (compSlot cfg (gasCompIdx cfg))
                       (getRs u fs r * svf * densityFactor cfg (gasPhaseIdx cfg) r) f1 else f1);
          f3 = (if p \<noteq> oilPhaseIdx cfg \<and> p = gasPhaseIdx cfg \<and> enableVaporizedOil cfg
                then addAt (compSlot cfg (oilCompIdx cfg))
                       (getRv u fs r * svf * densityFactor cfg (oilPhaseIdx cfg) r) f2 else f2);
          f4 = (if p \<noteq> oilPhaseIdx cfg \<and> p = gasPhaseIdx cfg \<and> enableVaporizedWater cfg
                then addAt (compSlot cfg (waterCompIdx cfg))
                       (getRvw u fs r * svf * densityFactor cfg (waterPhaseIdx cfg) r) f3 else f3)
      in f4)"
  by (simp add: evalPhaseFluxes_def densityFactor_def Let_def)

lemma length_evalPhaseFluxes [simp]:
  "length (evalPhaseFluxes cfg u flux p r svf fs) = length flux"
  by (simp add: evalPhaseFluxes_steps Let_def)

lemma evalPhaseFluxes_nth:
  assumes "s < length flux"
  shows "evalPhaseFluxes cfg u flux p r svf fs ! s
         = flux ! s + fluxContribution cfg u p r svf fs s"
proof -
  define f1 where "f1 = addAt (compSlot cfg (solventComponentIndex cfg p)) (svf * densityFactor cfg p r) flux"
  define f2 where "f2 = (if p = oilPhaseIdx cfg \<and> enableDissolvedGas cfg
                then addAt (compSlot cfg (gasCompIdx cfg))
                       (getRs u fs r * svf * densityFactor cfg (gasPhaseIdx cfg) r) f1 else f1)"
  define f3 where "f3 = (if p \<noteq> oilPhaseIdx cfg \<and> p = gasPhaseIdx cfg \<and> enableVaporizedOil cfg
                then addAt (compSlot cfg (oilCompIdx cfg))
                       (getRv u fs r * svf * densityFactor cfg (oilPhaseIdx cfg) r) f2 else f2)"
  define f4 where "f4 = (if p \<noteq> oilPhaseIdx cfg \<and> p = gasPhaseIdx cfg \<and> enableVaporizedWater cfg
                then addAt (compSlot cfg (waterCompIdx cfg))
                       (getRvw u fs r * svf * densityFactor cfg (waterPhaseIdx cfg) r) f3 else f3)"
  have eq: "evalPhaseFluxes cfg u flux p r svf fs = f4"
    unfolding evalPhaseFluxes_steps Let_def f4_def f3_def f2_def f1_def by (rule refl)
  have l1: "s < length f1" using assms by (simp add: f1_def)
  have l2: "s < length f2" using l1 unfolding f2_def by simp
  have l3: "s < length f3" using l2 unfolding f3_def by simp
  have e1: "f1 ! s = flux ! s + (if s = compSlot cfg (solventComponentIndex cfg p)
                                 then svf * densityFactor cfg p r else 0)"
    using assms by (simp add: f1_def nth_addAt)
  have e2: "f2 ! s = f1 ! s + (if (p = oilPhaseIdx cfg \<and> enableDissolvedGas cfg)
      \<and> s = compSlot cfg (gasCompIdx cfg)
      then getRs u fs r * svf * densityFactor cfg (gasPhaseIdx cfg) r else 0)"
    unfolding f2_def by (rule nth_addAt_if [OF l1])
  have e3: "f3 ! s = f2 ! s + (if (p \<noteq> oilPhaseIdx cfg \<and> p = gasPhaseIdx cfg \<and> enableVaporizedOil cfg)
      \<and> s = compSlot cfg (oilCompIdx cfg)
      then getRv u fs r * svf * densityFactor cfg (oilPhaseIdx cfg) r else 0)"
    unfolding f3_def by (rule nth_addAt_if [OF l2])
  have e4: "f4 ! s = f3 ! s + (if (p \<noteq> oilPhaseIdx cfg \<and> p = gasPhaseIdx cfg \<and> enableVaporizedWater cfg)
      \<and> s = compSlot cfg (waterCompIdx cfg)
      then getRvw u fs r * svf * densityFactor cfg (waterPhaseIdx cfg) r else 0)"
    unfolding f4_def by (rule nth_addAt_if [OF l3])
  show ?thesis
    unfolding eq e4 e3 e2 e1 fluxContribution_def by (simp only: add.assoc)
qed


section \<open>Conserving masses or surface volumes\<close>

lemma compSlot_mode [simp]:
  "compSlot (cfg\<lparr>blackoilConserveSurfaceVolume := b\<rparr>) = compSlot cfg"
  by (simp add: fun_eq_iff compSlot_def)

lemma if_scale:
  "(c \<Longrightarrow> k = k') \<Longrightarrow> (if c then x * k else 0) = k' * (if c then x * 1 else (0::evaluation))"
  by (simp add: mult.commute)

lemma fluxContribution_mass:
  assumes mass: "\<not> blackoilConserveSurfaceVolume cfg"
    and w: "\<forall>(c', ph') \<in> set (fluxWrites cfg p). compSlot cfg c' = s \<longrightarrow> ph' = ph"
  shows "fluxContribution cfg u p r svf fs s
         = createConstant (referenceDensity cfg ph r)
           * fluxContribution (cfg\<lparr>blackoilConserveSurfaceVolume := True\<rparr>) u p r svf fs s"
proof -
  let ?K = "createConstant (referenceDensity cfg ph r)"
  have k: "densityFactor cfg x r = createConstant (referenceDensity cfg x r)" for x
    using mass by (simp add: densityFactor_def)
  have h1: "s = compSlot cfg (solventComponentIndex cfg p) \<Longrightarrow> p = ph"
    using w by (simp add: fluxWrites_def)
  have h2: "(p = oilPhaseIdx cfg \<and> enableDissolvedGas cfg) \<and> s = compSlot cfg (gasCompIdx cfg)
            \<Longrightarrow> gasPhaseIdx cfg = ph"
    using w by (simp add: fluxWrites_def)
  have h3: "(p \<noteq> oilPhaseIdx cfg \<and> p = gasPhaseIdx cfg \<and> enableVaporizedOil cfg)
            \<and> s = compSlot cfg (oilCompIdx cfg) \<Longrightarrow> oilPhaseIdx cfg = ph"
    using w by (simp add: fluxWrites_def)
  have h4: "(p \<noteq> oilPhaseIdx cfg \<and> p = gasPhaseIdx cfg \<and> enableVaporizedWater cfg)
            \<and> s = compSlot cfg (waterCompIdx cfg) \<Longrightarrow> waterPhaseIdx cfg = ph"
    using w by (simp add: fluxWrites_def)
  have t1: "(if s = compSlot cfg (solventComponentIndex cfg p)
             then svf * createConstant (referenceDensity cfg p r) else 0)
            = ?K * (if s = compSlot cfg (solventComponentIndex cfg p) then svf * 1 else 0)"
    by (rule if_scale, drule h1, simp)
  have t2: "(if (p = oilPhaseIdx cfg \<and> enableDissolvedGas cfg) \<and> s = compSlot cfg (gasCompIdx cfg)
             then getRs u fs r * svf * createConstant (referenceDensity cfg (gasPhaseIdx cfg) r) else 0)
            = ?K * (if (p = oilPhaseIdx cfg \<and> enableDissolvedGas cfg) \<and> s = compSlot cfg (gasCompIdx cfg)
                    then getRs u fs r * svf * 1 else 0)"
    by (rule if_scale, drule h2, simp)
  have t3: "(if (p \<noteq> oilPhaseIdx cfg \<and> p = gasPhaseIdx cfg \<and> enableVaporizedOil cfg)
                \<and> s = compSlot cfg (oilCompIdx cfg)
             then getRv u fs r * svf * createConstant (referenceDensity cfg (oilPhaseIdx cfg) r) else 0)
            = ?K * (if (p \<noteq> oilPhaseIdx cfg \<and> p = gasPhaseIdx cfg \<and> enableVaporizedOil cfg)
                       \<and> s = compSlot cfg (oilCompIdx cfg)
                    then getRv u fs r * svf * 1 else 0)"
    by (rule if_scale, drule h3, simp)
  have t4: "(if (p \<noteq> oilPhaseIdx cfg \<and> p = gasPhaseIdx cfg \<and> enableVaporizedWater cfg)
                \<and> s = compSlot cfg (waterCompIdx cfg)
             then getRvw u fs r * svf * createConstant (referenceDensity cfg (waterPhaseIdx cfg) r) else 0)
            = ?K * (if (p \<noteq> oilPhaseIdx cfg \<and> p = gasPhaseIdx cfg \<and> enableVaporizedWater cfg)
                       \<and> s = compSlot cfg (waterCompIdx cfg)
                    then getRvw u fs r * svf * 1 else 0)"
    by (rule if_scale, drule h4, simp)
  have v: "fluxContribution (cfg\<lparr>blackoilConserveSurfaceVolume := True\<rparr>) u p r svf fs s
       = (if s = compSlot cfg (solventComponentIndex cfg p) then svf * 1 else 0)
         + (if (p = oilPhaseIdx cfg \<and> enableDissolvedGas cfg) \<and> s = compSlot cfg (gasCompIdx cfg)
            then getRs u fs r * svf * 1 else 0)
         + (if (p \<noteq> oilPhaseIdx cfg \<and> p = gasPhaseIdx cfg \<and> enableVaporizedOil cfg)
               \<and> s = compSlot cfg (oilCompIdx cfg)
            then getRv u fs r * svf * 1 else 0)
         + (if (p \<noteq> oilPhaseIdx cfg \<and> p = gasPhaseIdx cfg \<and> enableVaporizedWater cfg)
               \<and> s = compSlot cfg (waterCompIdx cfg)
            then getRvw u fs r * svf * 1 else 0)"
    by (simp add: fluxContribution_def densityFactor_def split del: if_split
        cong del: if_weak_cong)
  show ?thesis
    unfolding v unfolding fluxContribution_def k t1 t2 t3 t4
    by (simp only: distrib_left)
qed

lemma computeStorage_phase_mode [simp]:
  "computeStorage_phase (cfg\<lparr>blackoilConserveSurfaceVolume := b\<rparr>) = computeStorage_phase cfg"
  by (simp add: fun_eq_iff computeStorage_phase_def Let_def split del: if_split
      cong del: if_weak_cong)

lemma computeStorage_phases_mode [simp]:
  "computeStorage_phases (cfg\<lparr>blackoilConserveSurfaceVolume := b\<rparr>) = computeStorage_phases cfg"
  by (simp add: fun_eq_iff computeStorage_phases_def)

lemma adaptMassConservationQuantities_nth:
  assumes mass: "\<not> blackoilConserveSurfaceVolume cfg"
    and comp: "(c, ph, True) \<in> set (componentPhases cfg)"
    and dist: "distinct (enabledSlots cfg)"
    and len: "compSlot cfg c < length v"
  shows "adaptMassConservationQuantities cfg v r ! compSlot cfg c
         = createConstant (referenceDensity cfg ph r) * v ! compSlot cfg c"
proof -
  let ?w = "compSlot cfg (waterCompIdx cfg)"
  let ?g = "compSlot cfg (gasCompIdx cfg)"
  let ?o = "compSlot cfg (oilCompIdx cfg)"
  define c1 where "c1 = (if waterEnabled cfg
     then mulAt ?w (createConstant (referenceDensity cfg (waterPhaseIdx cfg) r)) v else v)"
  define c2 where "c2 = (if gasEnabled cfg
     then mulAt ?g (createConstant (referenceDensity cfg (gasPhaseIdx cfg) r)) c1 else c1)"
  define c3 where "c3 = (if oilEnabled cfg
     then mulAt ?o (createConstant (referenceDensity cfg (oilPhaseIdx cfg) r)) c2 else c2)"
  have eq: "adaptMassConservationQuantities cfg v r = c3"
    using mass unfolding adaptMassConservationQuantities_def Let_def c3_def c2_def c1_def
    by simp
  have wg: "?w \<noteq> ?g" if "waterEnabled cfg" "gasEnabled cfg"
    using dist that
    by (cases "oilEnabled cfg") (simp_all add: enabledSlots_def componentPhases_def)
  have wo: "?w \<noteq> ?o" if "waterEnabled cfg" "oilEnabled cfg"
    using dist that
    by (cases "gasEnabled cfg") (simp_all add: enabledSlots_def componentPhases_def)
  have go: "?g \<noteq> ?o" if "gasEnabled cfg" "oilEnabled cfg"
    using dist that
    by (cases "waterEnabled cfg") (simp_all add: enabledSlots_def componentPhases_def)
  have l1: "length c1 = length v" by (simp add: c1_def)
  have l2: "length c2 = length v" by (simp add: c2_def l1)
  from comp consider
      (water) "c = waterCompIdx cfg" "ph = waterPhaseIdx cfg" "waterEnabled cfg"
    | (gas) "c = gasCompIdx cfg" "ph = gasPhaseIdx cfg" "gasEnabled cfg"
    | (oil) "c = oilCompIdx cfg" "ph = oilPhaseIdx cfg" "oilEnabled cfg"
    by (auto simp: componentPhases_def)
  then show ?thesis
  proof cases
    case water
    have "c1 ! ?w = v ! ?w * createConstant (referenceDensity cfg ph r)"
      using water len by (simp add: c1_def nth_mulAt)
    moreover have "c2 ! ?w = c1 ! ?w"
      using water len wg by (simp add: c2_def nth_mulAt l1)
    moreover have "c3 ! ?w = c2 ! ?w"
      using water len wo by (simp add: c3_def nth_mulAt l2)
    ultimately show ?thesis
      using water by (simp add: eq mult.commute)
  next
    case gas
    have "c1 ! ?g = v ! ?g"
      using gas len wg by (auto simp: c1_def nth_mulAt)
    moreover have "c2 ! ?g = c1 ! ?g * createConstant (referenceDensity cfg ph r)"
      using gas len by (simp add: c2_def nth_mulAt l1)
    moreover have "c3 ! ?g = c2 ! ?g"
      using gas len go by (simp add: c3_def nth_mulAt l2)
    ultimately show ?thesis
      using gas by (simp add: eq mult.commute)
  next
    case oil
    have "c1 ! ?o = v ! ?o"
      using oil len wo by (auto simp: c1_def nth_mulAt)
    moreover have "c2 ! ?o = c1 ! ?o"
      using oil len go by (auto simp: c2_def nth_mulAt l1)
    moreover have "c3 ! ?o = c2 ! ?o * createConstant (referenceDensity cfg ph r)"
      using oil len by (simp add: c3_def nth_mulAt l2)
    ultimately show ?thesis
      using oil by (simp add: eq mult.commute)
  qed
qed

text \<open>
  C6. With masses conserved, every enabled component's slot holds the reference density
  of the component's phase times what it holds with surface volumes conserved, on the
  same input: for \<open>computeStorage\<close> (module contributions aside) at the PVT region of
  the intensive quantities, and for what one call of \<open>evalPhaseFluxes_\<close> adds to the
  flux vector at the PVT region of the call. The enabled components have pairwise
  different slots, and every component that the call writes to the slot carries the
  density of the slot's phase.
\<close>

theorem conservation_mode_equivalence:
  assumes mass: "\<not> blackoilConserveSurfaceVolume cfg"
    and comp: "(c, ph, True) \<in> set (componentPhases cfg)"
    and dist: "distinct (enabledSlots cfg)"
  shows "(compSlot cfg c < numEq cfg \<longrightarrow>
            computeStorage cfg [] lhs st iq t ! compSlot cfg c
            = createConstant (referenceDensity cfg ph (pvtRegionIndex iq))
              * computeStorage (cfg\<lparr>blackoilConserveSurfaceVolume := True\<rparr>) [] lhs st iq t
                ! compSlot cfg c)
         \<and> (compSlot cfg c < length flux
              \<and> (\<forall>(c', ph') \<in> set (fluxWrites cfg p).
                    compSlot cfg c' = compSlot cfg c \<longrightarrow> ph' = ph) \<longrightarrow>
            evalPhaseFluxes cfg u flux p r svf fs ! compSlot cfg c
            = flux ! compSlot cfg c
              + createConstant (referenceDensity cfg ph r)
                * (evalPhaseFluxes (cfg\<lparr>blackoilConserveSurfaceVolume := True\<rparr>) u flux p r svf fs
                     ! compSlot cfg c
                   - flux ! compSlot cfg c))"
proof (intro conjI impI)
  assume len: "compSlot cfg c < numEq cfg"
  have "computeStorage cfg [] lhs st iq t
        = adaptMassConservationQuantities cfg (computeStorage_phases cfg lhs iq t) (pvtRegionIndex iq)"
    by (simp add: computeStorage_def addStorageModules_def)
  moreover have "computeStorage (cfg\<lparr>blackoilConserveSurfaceVolume := True\<rparr>) [] lhs st iq t
        = computeStorage_phases cfg lhs iq t"
    by (simp add: computeStorage_def addStorageModules_def adaptMassConservationQuantities_def)
  ultimately show "computeStorage cfg [] lhs st iq t ! compSlot cfg c
            = createConstant (referenceDensity cfg ph (pvtRegionIndex iq))
              * computeStorage (cfg\<lparr>blackoilConserveSurfaceVolume := True\<rparr>) [] lhs st iq t
                ! compSlot cfg c"
    using adaptMassConservationQuantities_nth [OF mass comp dist, of "computeStorage_phases cfg lhs iq t"]
      len by simp
next
  assume a: "compSlot cfg c < length flux
              \<and> (\<forall>(c', ph') \<in> set (fluxWrites cfg p).
                    compSlot cfg c' = compSlot cfg c \<longrightarrow> ph' = ph)"
  then have len: "compSlot cfg c < length flux"
    and w: "\<forall>(c', ph') \<in> set (fluxWrites cfg p). compSlot cfg c' = compSlot cfg c \<longrightarrow> ph' = ph"
    by simp_all
  show "evalPhaseFluxes cfg u flux p r svf fs ! compSlot cfg c
            = flux ! compSlot cfg c
              + createConstant (referenceDensity cfg ph r)
                * (evalPhaseFluxes (cfg\<lparr>blackoilConserveSurfaceVolume := True\<rparr>) u flux p r svf fs
                     ! compSlot cfg c
                   - flux ! compSlot cfg c)"
    using evalPhaseFluxes_nth [OF len, of cfg u p r svf fs]
      evalPhaseFluxes_nth [OF len, of "cfg\<lparr>blackoilConserveSurfaceVolume := True\<rparr>" u p r svf fs]
      fluxContribution_mass [OF mass w, of u r svf fs]
    by simp
qed


theorem conservation_mode_equivalence_witness:
  "computeStorage exampleMassCfg [] True [] exampleIntQuants 0 ! 2
     = createConstant 2 * computeStorage exampleCfg [] True [] exampleIntQuants 0 ! 2
   \<and> evalPhaseFluxes exampleMassCfg True [0, 0, 0] 1 0 (createConstant 4) exampleFluidState ! 2
     = 0 + createConstant 2
           * (evalPhaseFluxes exampleCfg True [0, 0, 0] 1 0 (createConstant 4) exampleFluidState ! 2
              - 0)"
proof -
  have mass: "\<not> blackoilConserveSurfaceVolume exampleMassCfg"
    by (simp add: exampleMassCfg_def)
  have comp: "(2, 2, True) \<in> set (componentPhases exampleMassCfg)"
    by (simp add: exampleMassCfg_def exampleCfg_def componentPhases_def)
  have dist: "distinct (enabledSlots exampleMassCfg)"
    by (simp add: exampleMassCfg_def exampleCfg_def componentPhases_def enabledSlots_def
        compSlot_def)
  have slot: "compSlot exampleMassCfg 2 = 2"
    by (simp add: exampleMassCfg_def exampleCfg_def compSlot_def)
  have ne: "numEq exampleMassCfg = 3"
    by (simp add: exampleMassCfg_def exampleCfg_def)
  have wr: "fluxWrites exampleMassCfg 1 = [(0, 1), (2, 2)]"
    by (simp add: exampleMassCfg_def exampleCfg_def fluxWrites_def)
  have w: "\<forall>(c', ph') \<in> set (fluxWrites exampleMassCfg 1).
             compSlot exampleMassCfg c' = compSlot exampleMassCfg 2 \<longrightarrow> ph' = 2"
    unfolding wr by (simp add: exampleMassCfg_def exampleCfg_def compSlot_def)
  have vol: "exampleMassCfg\<lparr>blackoilConserveSurfaceVolume := True\<rparr> = exampleCfg"
    by (simp add: exampleMassCfg_def exampleCfg_def)
  have rho: "referenceDensity exampleMassCfg 2 0 = 2"
    by (simp add: exampleMassCfg_def exampleCfg_def)
  have pvt: "pvtRegionIndex exampleIntQuants = 0"
    by (simp add: exampleIntQuants_def)
  show ?thesis
    using conservation_mode_equivalence [OF mass comp dist, of True "[]" exampleIntQuants 0
        "[0, 0, 0]" 1 True 0 "createConstant 4" exampleFluidState] w
    unfolding slot ne vol rho pvt by simp
qed

section \<open>The flux of one phase\<close>

lemma val_if: "val (if c then a else b) = (if c then val a else val b)"
  by simp

lemma val_densityFactor:
  "val (densityFactor cfg ph r)
   = (if blackoilConserveSurfaceVolume cfg then 1 else referenceDensity cfg ph r)"
  by (simp add: densityFactor_def)

lemma val_fluxContribution:
  assumes og: "oilPhaseIdx cfg \<noteq> gasPhaseIdx cfg"
  shows "val (fluxContribution cfg u p (pvtRegionIndex up)
                (getInvB u (fluidState up) p (pvtRegionIndex up) * d) (fluidState up) s)
         = specFluxContribution cfg p up (val d) s"
proof -
  have g: "(p \<noteq> oilPhaseIdx cfg \<and> p = gasPhaseIdx cfg \<and> b) = (p = gasPhaseIdx cfg \<and> b)" for b
    using og by auto
  show ?thesis
    unfolding fluxContribution_def specFluxContribution_def Let_def g
    by (simp add: val_if val_densityFactor getInvB_def getRs_def getRv_def getRvw_def
        split del: if_split cong del: if_weak_cong)
qed

lemma val_darcyFlux:
  "val (if val pd = 0 then 0
        else if c then pd * m * tm * createConstant k
        else pd * createConstant (val m * val tm * k))
   = val pd * val m * val tm * k"
  by simp

lemma upwindPhaseFlux_nth:
  assumes og: "oilPhaseIdx cfg \<noteq> gasPhaseIdx cfg" and len: "s < length flux"
  shows "val (upwindPhaseFlux cfg prob L p upIdx pd flux ! s)
         = val (flux ! s)
           + specFluxContribution cfg p (upstreamQuantities L upIdx)
               (specDarcyFlux prob L p upIdx (val pd)) s"
proof -
  let ?up = "upstreamQuantities L upIdx"
  let ?tm = "rockCompTransMultiplier prob ?up (upstreamGlobalIndex L upIdx)"
  define d where "d = (if val pd = 0 then 0
        else if upIdx = interiorDofIdx L
        then pd * mobility ?up p * ?tm * createConstant (- trans' L / faceArea L)
        else pd * createConstant (val (mobility ?up p) * val ?tm * (- trans' L / faceArea L)))"
  have vd: "val d = specDarcyFlux prob L p upIdx (val pd)"
    unfolding d_def specDarcyFlux_def by (rule val_darcyFlux)
  have eq: "upwindPhaseFlux cfg prob L p upIdx pd flux
        = evalPhaseFluxes cfg (upIdx = focusDofIdx L) flux p (pvtRegionIndex ?up)
            (getInvB (upIdx = focusDofIdx L) (fluidState ?up) p (pvtRegionIndex ?up) * d)
            (fluidState ?up)"
    unfolding upwindPhaseFlux_def Let_def d_def upstreamQuantities_def upstreamGlobalIndex_def
    by (cases "upIdx = focusDofIdx L") (simp_all split del: if_split cong del: if_weak_cong)
  show ?thesis
    unfolding eq evalPhaseFluxes_nth [OF len] val_simps val_fluxContribution [OF og] vd
    by (rule refl)
qed

lemma upwindPhaseFlux_downstream:
  "upwindPhaseFlux cfg prob
     (if upIdx = interiorDofIdx L then L\<lparr>intQuantsEx := iq'\<rparr> else L\<lparr>intQuantsIn := iq'\<rparr>)
     p upIdx pd flux
   = upwindPhaseFlux cfg prob L p upIdx pd flux"
  by (cases "upIdx = interiorDofIdx L")
    (simp_all add: upwindPhaseFlux_def Let_def split del: if_split cong del: if_weak_cong)


section \<open>The phase loop of computeFlux on values\<close>

lemma length_upwindPhaseFlux [simp]:
  "length (upwindPhaseFlux cfg prob L p upIdx pd flux) = length flux"
  by (simp add: upwindPhaseFlux_def Let_def)

lemma length_computeFlux_phase [simp]:
  "length (computeFlux_phase cfg prob calc L scvfIdx timeIdx p flux) = length flux"
  by (simp add: computeFlux_phase_def split: prod.splits)

lemma computeFlux_phase_val:
  assumes og: "oilPhaseIdx cfg \<noteq> gasPhaseIdx cfg" and len: "s < length flux"
  shows "val (computeFlux_phase cfg prob calc L scvfIdx timeIdx p flux ! s)
         = val (flux ! s) + phaseFluxValue cfg prob calc L scvfIdx timeIdx s p"
proof (cases "phaseIsActive cfg p")
  case False
  then show ?thesis
    by (simp add: computeFlux_phase_def phaseFluxValue_def)
next
  case True
  obtain upIdx dnIdx pd where c:
    "calc (intQuantsIn L) (intQuantsEx L) scvfIdx timeIdx p (interiorDofIdx L)
       (exteriorDofIdx L) (Vin L) (Vex L) (globalIndexIn L) (globalIndexEx L)
       (distZ L * g L) (thpres L) = (upIdx, dnIdx, pd)"
    by (rule prod_cases3)
  have "computeFlux_phase cfg prob calc L scvfIdx timeIdx p flux
        = upwindPhaseFlux cfg prob L p upIdx pd flux"
    using True c by (simp add: computeFlux_phase_def)
  moreover have "phaseFluxValue cfg prob calc L scvfIdx timeIdx s p
        = specFluxContribution cfg p (upstreamQuantities L upIdx)
            (specDarcyFlux prob L p upIdx (val pd)) s"
    using True c by (simp add: phaseFluxValue_def)
  ultimately show ?thesis
    using upwindPhaseFlux_nth [OF og len, of prob L p upIdx pd] by simp
qed

lemma fold_computeFlux_phase_val:
  assumes og: "oilPhaseIdx cfg \<noteq> gasPhaseIdx cfg" and len: "s < length flux"
  shows "val (fold (computeFlux_phase cfg prob calc L scvfIdx timeIdx) ps flux ! s)
         = val (flux ! s) + (\<Sum>p\<leftarrow>ps. phaseFluxValue cfg prob calc L scvfIdx timeIdx s p)"
  using len
proof (induction ps arbitrary: flux)
  case Nil
  then show ?case by simp
next
  case (Cons p ps)
  have l: "s < length (computeFlux_phase cfg prob calc L scvfIdx timeIdx p flux)"
    using Cons.prems by simp
  show ?case
    using Cons.IH [OF l] computeFlux_phase_val [OF og Cons.prems, of prob calc L scvfIdx timeIdx p]
    by simp
qed

lemma computeFlux_phases_val:
  assumes og: "oilPhaseIdx cfg \<noteq> gasPhaseIdx cfg" and len: "s < numEq cfg"
  shows "val (computeFlux_phases cfg calc elemCtx scvfIdx timeIdx ! s)
         = (\<Sum>p\<leftarrow>[0..<numPhases cfg].
              phaseFluxValue cfg (problem elemCtx) calc
                (computeFlux_locals elemCtx scvfIdx timeIdx) scvfIdx timeIdx s p)"
proof -
  have l: "s < length (replicate (numEq cfg) (0::evaluation))"
    using len by simp
  show ?thesis
    unfolding computeFlux_phases_def
    using fold_computeFlux_phase_val [OF og l] len by simp
qed

lemma example_locals:
  "computeFlux_locals exampleElemCtx 0 0 =
     \<lparr> interiorDofIdx = 0, exteriorDofIdx = 1, Vin = 1, Vex = 1, globalIndexIn = 0,
       globalIndexEx = 1, trans' = 4, faceArea = 2, thpres = 0, g = 0,
       intQuantsIn = exampleIntQuants, intQuantsEx = exampleIntQuantsEx, distZ = 0,
       focusDofIdx = 0 \<rparr>"
  by (simp add: computeFlux_locals_def exampleElemCtx_def exampleProblem_def Let_def)

lemma example_phaseFluxValue_mass:
  "phaseFluxValue exampleMassCfg exampleProblem examplePressureDiff
     (computeFlux_locals exampleElemCtx 0 0) 0 0 0 0 = 0"
  "phaseFluxValue exampleMassCfg exampleProblem examplePressureDiff
     (computeFlux_locals exampleElemCtx 0 0) 0 0 0 1 = - 324"
  "phaseFluxValue exampleMassCfg exampleProblem examplePressureDiff
     (computeFlux_locals exampleElemCtx 0 0) 0 0 0 2 = 1008"
  unfolding example_locals
  by (simp_all add: phaseFluxValue_def exampleMassCfg_def exampleCfg_def examplePressureDiff_def
      specFluxContribution_def specDarcyFlux_def upstreamQuantities_def upstreamGlobalIndex_def
      exampleProblem_def exampleIntQuants_def exampleIntQuantsEx_def exampleFluidState_def
      compSlot_def Let_def)


lemma example_phaseFluxValue_volume:
  "phaseFluxValue exampleCfg exampleProblem examplePressureDiff
     (computeFlux_locals exampleElemCtx 0 0) 0 0 0 0 = 0"
  "phaseFluxValue exampleCfg exampleProblem examplePressureDiff
     (computeFlux_locals exampleElemCtx 0 0) 0 0 0 1 = - 108"
  "phaseFluxValue exampleCfg exampleProblem examplePressureDiff
     (computeFlux_locals exampleElemCtx 0 0) 0 0 0 2 = 504"
  unfolding example_locals
  by (simp_all add: phaseFluxValue_def exampleCfg_def examplePressureDiff_def
      specFluxContribution_def specDarcyFlux_def upstreamQuantities_def upstreamGlobalIndex_def
      exampleProblem_def exampleIntQuants_def exampleIntQuantsEx_def exampleFluidState_def
      compSlot_def Let_def)

lemma example_flux_mass:
  "val (computeFlux_phases exampleMassCfg examplePressureDiff exampleElemCtx 0 0 ! 0) = 684"
proof -
  have og: "oilPhaseIdx exampleMassCfg \<noteq> gasPhaseIdx exampleMassCfg"
    by (simp add: exampleMassCfg_def exampleCfg_def)
  have len: "0 < numEq exampleMassCfg"
    by (simp add: exampleMassCfg_def exampleCfg_def)
  have np: "[0..<numPhases exampleMassCfg] = [0, 1, 2]"
    by (simp add: exampleMassCfg_def exampleCfg_def upt3)
  have pr: "problem exampleElemCtx = exampleProblem"
    by (simp add: exampleElemCtx_def)
  show ?thesis
    unfolding computeFlux_phases_val [OF og len] np pr
    by (simp only: list.map sum_list.Cons sum_list.Nil example_phaseFluxValue_mass)
qed

lemma example_flux_volume:
  "val (computeFlux_phases exampleCfg examplePressureDiff exampleElemCtx 0 0 ! 0) = 396"
proof -
  have og: "oilPhaseIdx exampleCfg \<noteq> gasPhaseIdx exampleCfg"
    by (simp add: exampleCfg_def)
  have len: "0 < numEq exampleCfg"
    by (simp add: exampleCfg_def)
  have np: "[0..<numPhases exampleCfg] = [0, 1, 2]"
    by (simp add: exampleCfg_def upt3)
  have pr: "problem exampleElemCtx = exampleProblem"
    by (simp add: exampleElemCtx_def)
  show ?thesis
    unfolding computeFlux_phases_val [OF og len] np pr
    by (simp only: list.map sum_list.Cons sum_list.Nil example_phaseFluxValue_volume)
qed

lemma length_fold_computeFlux_phase [simp]:
  "length (fold (computeFlux_phase cfg prob calc L scvfIdx timeIdx) ps flux) = length flux"
  by (induction ps arbitrary: flux) simp_all

lemma length_computeFlux_phases [simp]:
  "length (computeFlux_phases cfg calc elemCtx scvfIdx timeIdx) = numEq cfg"
  by (simp add: computeFlux_phases_def)

lemma example_mass_oil:
  "\<not> blackoilConserveSurfaceVolume exampleMassCfg"
  "(0, 1, True) \<in> set (componentPhases exampleMassCfg)"
  "distinct (enabledSlots exampleMassCfg)"
  "compSlot exampleMassCfg 0 = 0"
  by (simp_all add: exampleMassCfg_def exampleCfg_def componentPhases_def enabledSlots_def
      compSlot_def)

lemma example_adapt_oil:
  assumes "0 < length v"
  shows "val (adaptMassConservationQuantities exampleMassCfg v r ! 0)
         = (if r = 0 then 2 else 3) * val (v ! 0)"
proof -
  have "compSlot exampleMassCfg 0 < length v"
    using assms by (simp add: example_mass_oil(4))
  moreover have "referenceDensity exampleMassCfg 1 r = (if r = 0 then 2 else 3)"
    by (simp add: exampleMassCfg_def exampleCfg_def)
  ultimately have "adaptMassConservationQuantities exampleMassCfg v r ! 0
        = createConstant (if r = 0 then 2 else 3) * v ! 0"
    using adaptMassConservationQuantities_nth [OF example_mass_oil(1,2,3), of v r]
    by (simp only: example_mass_oil(4))
  then show ?thesis
    by simp
qed

lemma example_storage_oil:
  "val (computeStorage_phases exampleMassCfg True exampleIntQuants 0 ! 0) = 48"
proof -
  have a: "0 < length (replicate (numEq exampleMassCfg) (0::evaluation))"
    by (simp add: exampleMassCfg_def exampleCfg_def)
  have b: "\<forall>p\<in>set [0, 1, 2]. \<not> pseudoSlot exampleMassCfg p 0"
    by (simp add: pseudoSlot_def exampleMassCfg_def exampleCfg_def)
  have np: "[0..<numPhases exampleMassCfg] = [0, 1, 2]"
    by (simp add: exampleMassCfg_def exampleCfg_def upt3)
  have c: "storageContribution exampleMassCfg True exampleIntQuants 0 0 = 0"
    "val (storageContribution exampleMassCfg True exampleIntQuants 1 0) = 6"
    "val (storageContribution exampleMassCfg True exampleIntQuants 2 0) = 42"
    by (simp_all add: storageContribution_def exampleMassCfg_def exampleCfg_def compSlot_def
        exampleIntQuants_def exampleFluidState_def decay_def Let_def)
  have act: "phaseIsActive exampleMassCfg 0" "phaseIsActive exampleMassCfg 1"
    "phaseIsActive exampleMassCfg 2"
    by (simp_all add: exampleMassCfg_def exampleCfg_def)
  have "fold (computeStorage_phase exampleMassCfg True exampleIntQuants 0) [0, 1, 2]
          (replicate (numEq exampleMassCfg) 0) ! 0
        = replicate (numEq exampleMassCfg) 0 ! 0
          + (storageContribution exampleMassCfg True exampleIntQuants 0 0
             + (storageContribution exampleMassCfg True exampleIntQuants 1 0
                + (storageContribution exampleMassCfg True exampleIntQuants 2 0 + 0)))"
    using fold_computeStorage_phase [OF a b, of True exampleIntQuants 0]
    by (simp only: list.map sum_list.Cons sum_list.Nil act if_True)
  moreover have "replicate (numEq exampleMassCfg) (0::evaluation) ! 0 = 0"
    using a by simp
  ultimately show ?thesis
    unfolding computeStorage_phases_def np
    by (simp only: val_simps c)
qed

section \<open>Where the reference densities are multiplied\<close>

text \<open>
  C4, as stated, fails. With masses conserved, the flux of the example face (oil flowing
  from the exterior cell in PVT region 1, water and gas from the interior cell in PVT
  region 0) is not the surface-volume flux converted in one step at either PVT region;
  and the storage with a module that adds to the oil slot is not the conversion applied
  after the module's contribution.
\<close>

theorem conversion_step_counterexample:
  "computeFlux_phases exampleMassCfg examplePressureDiff exampleElemCtx 0 0
     \<noteq> adaptMassConservationQuantities exampleMassCfg
         (computeFlux_phases exampleCfg examplePressureDiff exampleElemCtx 0 0) 0
   \<and> computeFlux_phases exampleMassCfg examplePressureDiff exampleElemCtx 0 0
     \<noteq> adaptMassConservationQuantities exampleMassCfg
         (computeFlux_phases exampleCfg examplePressureDiff exampleElemCtx 0 0) 1
   \<and> computeStorage exampleMassCfg [exampleOilSlotModule] True [] exampleIntQuants 0
     \<noteq> adaptMassConservationQuantities exampleMassCfg
         (addStorageModules [exampleOilSlotModule] exampleIntQuants
            (computeStorage_phases exampleMassCfg True exampleIntQuants 0))
         (pvtRegionIndex exampleIntQuants)"
proof -
  let ?V = "computeFlux_phases exampleCfg examplePressureDiff exampleElemCtx 0 0"
  let ?M = "computeFlux_phases exampleMassCfg examplePressureDiff exampleElemCtx 0 0"
  let ?P = "computeStorage_phases exampleMassCfg True exampleIntQuants 0"
  have pv: "pvtRegionIndex exampleIntQuants = 0"
    by (simp add: exampleIntQuants_def)
  have lv: "0 < length ?V"
    by (simp add: exampleCfg_def)
  have lp: "0 < length ?P"
    by (simp add: exampleMassCfg_def exampleCfg_def)
  have f0: "val (adaptMassConservationQuantities exampleMassCfg ?V 0 ! 0) = 792"
    using example_adapt_oil [OF lv, of 0] by (simp add: example_flux_volume)
  have f1: "val (adaptMassConservationQuantities exampleMassCfg ?V 1 ! 0) = 1188"
    using example_adapt_oil [OF lv, of 1] by (simp add: example_flux_volume)
  have s1: "val (computeStorage exampleMassCfg [exampleOilSlotModule] True [] exampleIntQuants 0 ! 0)
            = 97"
    using example_adapt_oil [OF lp, of 0] lp
    by (simp add: computeStorage_def addStorageModules_def exampleOilSlotModule_def
        nth_addAt example_storage_oil pv)
  have s2: "val (adaptMassConservationQuantities exampleMassCfg
         (addStorageModules [exampleOilSlotModule] exampleIntQuants ?P)
         (pvtRegionIndex exampleIntQuants) ! 0) = 98"
  proof -
    have l: "0 < length (addStorageModules [exampleOilSlotModule] exampleIntQuants ?P)"
      using lp by (simp add: addStorageModules_def exampleOilSlotModule_def)
    show ?thesis
      using example_adapt_oil [OF l, of "pvtRegionIndex exampleIntQuants"] lp
      by (simp add: addStorageModules_def exampleOilSlotModule_def nth_addAt
          example_storage_oil pv)
  qed
  have "?M \<noteq> adaptMassConservationQuantities exampleMassCfg ?V 0"
    using example_flux_mass f0 by auto
  moreover have "?M \<noteq> adaptMassConservationQuantities exampleMassCfg ?V 1"
    using example_flux_mass f1 by auto
  moreover have "computeStorage exampleMassCfg [exampleOilSlotModule] True [] exampleIntQuants 0
     \<noteq> adaptMassConservationQuantities exampleMassCfg
         (addStorageModules [exampleOilSlotModule] exampleIntQuants ?P)
         (pvtRegionIndex exampleIntQuants)"
    using s1 s2 by auto
  ultimately show ?thesis by blast
qed


text \<open>
  C4, amended. With masses conserved, \<open>computeStorage\<close> converts in one step,
  \<open>adaptMassConservationQuantities_\<close>, applied once to the result of the phase loop
  (which is the loop's result with surface volumes conserved) and before the modules
  add their contributions. The flux has no such step: \<open>evalPhaseFluxes_\<close> multiplies
  every contribution, as it adds it, by the reference density of the receiving
  component's phase at the PVT region of the call.
\<close>

theorem conversion_step_placement:
  "computeStorage cfg mods lhs st iq t
     = addStorageModules mods iq
         (adaptMassConservationQuantities cfg
            (computeStorage_phases (cfg\<lparr>blackoilConserveSurfaceVolume := True\<rparr>) lhs iq t)
            (pvtRegionIndex iq))
   \<and> (\<not> blackoilConserveSurfaceVolume cfg \<and> s < length flux \<longrightarrow>
        evalPhaseFluxes cfg u flux p r svf fs ! s
        = flux ! s
          + ((if s = compSlot cfg (solventComponentIndex cfg p)
              then svf * createConstant (referenceDensity cfg p r) else 0)
             + (if (p = oilPhaseIdx cfg \<and> enableDissolvedGas cfg)
                   \<and> s = compSlot cfg (gasCompIdx cfg)
                then getRs u fs r * svf
                     * createConstant (referenceDensity cfg (gasPhaseIdx cfg) r) else 0)
             + (if (p \<noteq> oilPhaseIdx cfg \<and> p = gasPhaseIdx cfg \<and> enableVaporizedOil cfg)
                   \<and> s = compSlot cfg (oilCompIdx cfg)
                then getRv u fs r * svf
                     * createConstant (referenceDensity cfg (oilPhaseIdx cfg) r) else 0)
             + (if (p \<noteq> oilPhaseIdx cfg \<and> p = gasPhaseIdx cfg \<and> enableVaporizedWater cfg)
                   \<and> s = compSlot cfg (waterCompIdx cfg)
                then getRvw u fs r * svf
                     * createConstant (referenceDensity cfg (waterPhaseIdx cfg) r) else 0)))"
proof (intro conjI impI)
  show "computeStorage cfg mods lhs st iq t
     = addStorageModules mods iq
         (adaptMassConservationQuantities cfg
            (computeStorage_phases (cfg\<lparr>blackoilConserveSurfaceVolume := True\<rparr>) lhs iq t)
            (pvtRegionIndex iq))"
    by (simp add: computeStorage_def)
next
  assume a: "\<not> blackoilConserveSurfaceVolume cfg \<and> s < length flux"
  then have len: "s < length flux" and mass: "\<not> blackoilConserveSurfaceVolume cfg"
    by simp_all
  have k: "densityFactor cfg x r = createConstant (referenceDensity cfg x r)" for x
    using mass by (simp add: densityFactor_def)
  show "evalPhaseFluxes cfg u flux p r svf fs ! s
        = flux ! s
          + ((if s = compSlot cfg (solventComponentIndex cfg p)
              then svf * createConstant (referenceDensity cfg p r) else 0)
             + (if (p = oilPhaseIdx cfg \<and> enableDissolvedGas cfg)
                   \<and> s = compSlot cfg (gasCompIdx cfg)
                then getRs u fs r * svf
                     * createConstant (referenceDensity cfg (gasPhaseIdx cfg) r) else 0)
             + (if (p \<noteq> oilPhaseIdx cfg \<and> p = gasPhaseIdx cfg \<and> enableVaporizedOil cfg)
                   \<and> s = compSlot cfg (oilCompIdx cfg)
                then getRv u fs r * svf
                     * createConstant (referenceDensity cfg (oilPhaseIdx cfg) r) else 0)
             + (if (p \<noteq> oilPhaseIdx cfg \<and> p = gasPhaseIdx cfg \<and> enableVaporizedWater cfg)
                   \<and> s = compSlot cfg (waterCompIdx cfg)
                then getRvw u fs r * svf
                     * createConstant (referenceDensity cfg (waterPhaseIdx cfg) r) else 0))"
    unfolding evalPhaseFluxes_nth [OF len] fluxContribution_def k by (rule refl)
qed

theorem conversion_step_placement_witness:
  "computeStorage exampleMassCfg [exampleOilSlotModule] True [] exampleIntQuants 0
     = addAt 0 (createConstant 1)
         (adaptMassConservationQuantities exampleMassCfg
            (computeStorage_phases exampleCfg True exampleIntQuants 0) 0)
   \<and> val (evalPhaseFluxes exampleMassCfg True [0, 0, 0] 1 1 (createConstant 4)
            exampleFluidState ! 2) = 60"
proof -
  have vol: "exampleMassCfg\<lparr>blackoilConserveSurfaceVolume := True\<rparr> = exampleCfg"
    by (simp add: exampleMassCfg_def exampleCfg_def)
  have pv: "pvtRegionIndex exampleIntQuants = 0"
    by (simp add: exampleIntQuants_def)
  have h: "\<not> blackoilConserveSurfaceVolume exampleMassCfg \<and> 2 < length [0::evaluation, 0, 0]"
    by (simp add: exampleMassCfg_def)
  have c: "compSlot exampleMassCfg (solventComponentIndex exampleMassCfg (Suc 0)) = 0"
    "compSlot exampleMassCfg (gasCompIdx exampleMassCfg) = 2"
    "oilPhaseIdx exampleMassCfg = Suc 0" "gasPhaseIdx exampleMassCfg = 2"
    "enableDissolvedGas exampleMassCfg"
    "referenceDensity exampleMassCfg 2 (Suc 0) = 3"
    by (simp_all add: exampleMassCfg_def exampleCfg_def compSlot_def)
  have r: "val (getRs True exampleFluidState (Suc 0)) = 5"
    by (simp add: getRs_def exampleFluidState_def)
  show ?thesis
    using conversion_step_placement [of exampleMassCfg "[exampleOilSlotModule]" True "[]"
        exampleIntQuants 0 2 "[0, 0, 0]" True 1 1 "createConstant 4" exampleFluidState] h
    unfolding vol pv
    by (simp add: c r addStorageModules_def exampleOilSlotModule_def)
qed

section \<open>Derivatives when the focus dof is the exterior dof\<close>

lemma example_exterior_focus_locals:
  "computeFlux_locals exampleExteriorFocusCtx 0 0 =
     \<lparr> interiorDofIdx = 0, exteriorDofIdx = 1, Vin = 1, Vex = 1, globalIndexIn = 0,
       globalIndexEx = 1, trans' = 4, faceArea = 2, thpres = 0, g = 0,
       intQuantsIn = exampleIntQuants, intQuantsEx = exampleIntQuantsEx, distZ = 0,
       focusDofIdx = 1 \<rparr>"
  by (simp add: computeFlux_locals_def exampleExteriorFocusCtx_def exampleElemCtx_def
      exampleProblem_def Let_def)

text \<open>
  C3. The Darcy flux keeps the derivatives of the upstream mobility and transmissibility
  multiplier when the upstream dof is the interior dof of the face, not when it is the
  focus dof; only the inverse formation-volume-factor and \<open>Rs\<close>, \<open>Rv\<close>, \<open>Rvw\<close>
  follow the focus dof. On the example face with the exterior dof as focus dof: water
  flows from the interior dof, which is not the focus dof, and the derivative of the
  interior mobility appears in the flux; oil flows from the exterior dof, the focus dof,
  and the derivative of its mobility is dropped.
\<close>

theorem exterior_focus_derivatives:
  "focusDofIdx (computeFlux_locals exampleExteriorFocusCtx 0 0) = 1
   \<and> interiorDofIdx (computeFlux_locals exampleExteriorFocusCtx 0 0) = 0
   \<and> deriv (mobility exampleIntQuants 0) 1 = 1
   \<and> deriv (mobility exampleIntQuantsEx 1) 1 = 1
   \<and> deriv (computeFlux_phase exampleCfg exampleProblem examplePressureDiff
              (computeFlux_locals exampleExteriorFocusCtx 0 0) 0 0 0 [0, 0, 0] ! 1) 1 = 36
   \<and> deriv (computeFlux_phase exampleCfg exampleProblem examplePressureDiff
              (computeFlux_locals exampleExteriorFocusCtx 0 0) 0 0 1 [0, 0, 0] ! 0) 1 = 0"
proof -
  have w: "computeFlux_phase exampleCfg exampleProblem examplePressureDiff
             (computeFlux_locals exampleExteriorFocusCtx 0 0) 0 0 0 [0, 0, 0]
           = evalPhaseFluxes exampleCfg False [0, 0, 0] 0 0
               (createConstant 3
                * (createConstant (- 6) * createVariable 2 1 * createConstant 1
                   * createConstant (- 4 / 2)))
               exampleFluidState"
    unfolding example_exterior_focus_locals
    by (simp add: computeFlux_phase_def examplePressureDiff_def upwindPhaseFlux_def Let_def
        exampleCfg_def exampleProblem_def exampleIntQuants_def exampleFluidState_def
        getInvB_def decay_def)
  have o: "computeFlux_phase exampleCfg exampleProblem examplePressureDiff
             (computeFlux_locals exampleExteriorFocusCtx 0 0) 0 0 1 [0, 0, 0]
           = evalPhaseFluxes exampleCfg True [0, 0, 0] 1 1
               (createConstant 3
                * (createConstant 6 * createConstant (3 * 1 * (- 4 / 2))))
               exampleFluidState"
    unfolding example_exterior_focus_locals
    by (simp add: computeFlux_phase_def examplePressureDiff_def upwindPhaseFlux_def Let_def
        exampleCfg_def exampleProblem_def exampleIntQuantsEx_def exampleFluidState_def
        getInvB_def decay_def)
  have l: "1 < length [0::evaluation, 0, 0]" "0 < length [0::evaluation, 0, 0]"
    by simp_all
  have cw: "compSlot exampleCfg (solventComponentIndex exampleCfg 0) = 1"
    and co: "compSlot exampleCfg (solventComponentIndex exampleCfg 1) = 0"
    and cg: "compSlot exampleCfg (gasCompIdx exampleCfg) = 2"
    and ph: "oilPhaseIdx exampleCfg = 1" "gasPhaseIdx exampleCfg = 2"
    and dn: "densityFactor exampleCfg x y = 1" for x y
    by (simp_all add: exampleCfg_def compSlot_def densityFactor_def)
  have dw: "deriv (computeFlux_phase exampleCfg exampleProblem examplePressureDiff
              (computeFlux_locals exampleExteriorFocusCtx 0 0) 0 0 0 [0, 0, 0] ! 1) 1 = 36"
    unfolding w evalPhaseFluxes_nth [OF l(1)] fluxContribution_def cw co cg ph dn
    by simp
  have do: "deriv (computeFlux_phase exampleCfg exampleProblem examplePressureDiff
              (computeFlux_locals exampleExteriorFocusCtx 0 0) 0 0 1 [0, 0, 0] ! 0) 1 = 0"
    unfolding o evalPhaseFluxes_nth [OF l(2)] fluxContribution_def cw co cg ph dn
    by simp
  show ?thesis
    using dw do
    by (simp add: example_exterior_focus_locals exampleIntQuants_def exampleIntQuantsEx_def)
qed

section \<open>The flux that computeFlux returns\<close>

lemma sum_list_split:
  assumes "a \<in> set xs" "distinct xs"
  shows "(\<Sum>p\<leftarrow>xs. f p) = (f a :: real) + (\<Sum>p\<leftarrow>xs. if p = a then 0 else f p)"
  using assms
proof (induction xs)
  case Nil
  then show ?case by simp
next
  case (Cons x xs)
  show ?case
  proof (cases "x = a")
    case True
    then have "a \<notin> set xs" using Cons.prems(2) by simp
    then have "(\<Sum>p\<leftarrow>xs. if p = a then 0 else f p) = (\<Sum>p\<leftarrow>xs. f p)"
      by (intro arg_cong [where f = sum_list] map_cong) auto
    then show ?thesis using True by simp
  next
    case False
    then have "a \<in> set xs" using Cons.prems(1) by simp
    then show ?thesis using Cons.IH Cons.prems(2) False by simp
  qed
qed

text \<open>
  C1. On an interior face (of an area other than zero, with different interior and
  exterior dof) \<open>computeFlux\<close> returns the modules' contributions on top of the
  result of its phase loop, and for every active phase with a pressure difference other
  than zero each slot of that result holds, next to what the other phases add, the value
  that the specification names: the Darcy flux \<open>potentialDifference *
  upstreamMobility * transMultiplier * (- transmissibility / faceArea)\<close>, times the
  upstream inverse formation-volume-factor, distributed over the component slots with
  the upstream \<open>Rs\<close>, \<open>Rv\<close>, \<open>Rvw\<close> and reference densities. The downstream
  intensive quantities contribute nothing to the phase's iteration: replacing them by
  any others leaves its result as it is.
\<close>

theorem computeFlux_upwind_flux:
  assumes L: "L = computeFlux_locals elemCtx scvfIdx 0"
    and ne: "interiorIndex elemCtx scvfIdx \<noteq> exteriorIndex elemCtx scvfIdx"
    and fa: "faceArea L \<noteq> 0"
    and og: "oilPhaseIdx cfg \<noteq> gasPhaseIdx cfg"
    and len: "s < numEq cfg"
    and ph: "phaseIdx < numPhases cfg"
    and act: "phaseIsActive cfg phaseIdx"
    and pd: "calc (intQuantsIn L) (intQuantsEx L) scvfIdx 0 phaseIdx (interiorDofIdx L)
               (exteriorDofIdx L) (Vin L) (Vex L) (globalIndexIn L) (globalIndexEx L)
               (distZ L * g L) (thpres L) = (upIdx, dnIdx, pressureDifference)"
    and nz: "val pressureDifference \<noteq> 0"
  shows "computeFlux cfg mods calc flux elemCtx scvfIdx 0
           = Inr (computeFluxModules mods elemCtx scvfIdx 0
                    (computeFlux_phases cfg calc elemCtx scvfIdx 0))
         \<and> computeFlux cfg [] calc flux elemCtx scvfIdx 0
           = Inr (computeFlux_phases cfg calc elemCtx scvfIdx 0)
         \<and> val (computeFlux_phases cfg calc elemCtx scvfIdx 0 ! s)
           = specFluxContribution cfg phaseIdx (upstreamQuantities L upIdx)
               (specDarcyFlux (problem elemCtx) L phaseIdx upIdx (val pressureDifference)) s
             + (\<Sum>p\<leftarrow>[0..<numPhases cfg].
                  if p = phaseIdx then 0
                  else phaseFluxValue cfg (problem elemCtx) calc L scvfIdx 0 s p)
         \<and> (s < length fl \<longrightarrow>
              val (computeFlux_phase cfg (problem elemCtx) calc L scvfIdx 0 phaseIdx fl ! s)
              = val (fl ! s)
                + specFluxContribution cfg phaseIdx (upstreamQuantities L upIdx)
                    (specDarcyFlux (problem elemCtx) L phaseIdx upIdx (val pressureDifference)) s)
         \<and> upwindPhaseFlux cfg (problem elemCtx)
             (if upIdx = interiorDofIdx L then L\<lparr>intQuantsEx := iq'\<rparr>
              else L\<lparr>intQuantsIn := iq'\<rparr>)
             phaseIdx upIdx pressureDifference fl
           = computeFlux_phase cfg (problem elemCtx) calc L scvfIdx 0 phaseIdx fl"
proof -
  let ?prob = "problem elemCtx"
  let ?c = "specFluxContribution cfg phaseIdx (upstreamQuantities L upIdx)
               (specDarcyFlux ?prob L phaseIdx upIdx (val pressureDifference)) s"
  have a: "computeFlux cfg mods calc flux elemCtx scvfIdx 0
           = Inr (computeFluxModules mods elemCtx scvfIdx 0
                    (computeFlux_phases cfg calc elemCtx scvfIdx 0))" for mods
    using ne by (simp add: computeFlux_def)
  have b: "computeFlux cfg [] calc flux elemCtx scvfIdx 0
           = Inr (computeFlux_phases cfg calc elemCtx scvfIdx 0)"
    unfolding a by (simp add: computeFluxModules_def)
  have v: "phaseFluxValue cfg ?prob calc L scvfIdx 0 s phaseIdx = ?c"
    using act pd by (simp add: phaseFluxValue_def)
  have m: "phaseIdx \<in> set [0..<numPhases cfg]" and d: "distinct [0..<numPhases cfg]"
    using ph by simp_all
  have c: "val (computeFlux_phases cfg calc elemCtx scvfIdx 0 ! s)
           = ?c + (\<Sum>p\<leftarrow>[0..<numPhases cfg].
                  if p = phaseIdx then 0
                  else phaseFluxValue cfg ?prob calc L scvfIdx 0 s p)"
    unfolding computeFlux_phases_val [OF og len] L [symmetric]
      sum_list_split [OF m d, of "phaseFluxValue cfg ?prob calc L scvfIdx 0 s"] v
    by (rule refl)
  have eq: "computeFlux_phase cfg ?prob calc L scvfIdx 0 phaseIdx fl
            = upwindPhaseFlux cfg ?prob L phaseIdx upIdx pressureDifference fl"
    using act pd by (simp add: computeFlux_phase_def)
  have e: "s < length fl \<longrightarrow>
              val (computeFlux_phase cfg ?prob calc L scvfIdx 0 phaseIdx fl ! s)
              = val (fl ! s) + ?c"
    unfolding eq using upwindPhaseFlux_nth [OF og, of s fl ?prob L phaseIdx upIdx pressureDifference]
    by simp
  have f: "upwindPhaseFlux cfg ?prob
             (if upIdx = interiorDofIdx L then L\<lparr>intQuantsEx := iq'\<rparr>
              else L\<lparr>intQuantsIn := iq'\<rparr>)
             phaseIdx upIdx pressureDifference fl
           = computeFlux_phase cfg ?prob calc L scvfIdx 0 phaseIdx fl"
    unfolding eq by (rule upwindPhaseFlux_downstream)
  from a b c e f show ?thesis by blast
qed


theorem computeFlux_upwind_flux_witness:
  "computeFlux exampleCfg [] examplePressureDiff [] exampleElemCtx 0 0
     = Inr (computeFlux_phases exampleCfg examplePressureDiff exampleElemCtx 0 0)
   \<and> val (computeFlux_phases exampleCfg examplePressureDiff exampleElemCtx 0 0 ! 2) = - 468"
proof -
  let ?L = "computeFlux_locals exampleElemCtx 0 0"
  have ne: "interiorIndex exampleElemCtx 0 \<noteq> exteriorIndex exampleElemCtx 0"
    by (simp add: exampleElemCtx_def)
  have fa: "faceArea ?L \<noteq> 0"
    by (simp add: example_locals)
  have og: "oilPhaseIdx exampleCfg \<noteq> gasPhaseIdx exampleCfg"
    by (simp add: exampleCfg_def)
  have len: "2 < numEq exampleCfg" and ph: "1 < numPhases exampleCfg"
    by (simp_all add: exampleCfg_def)
  have act: "phaseIsActive exampleCfg 1"
    by (simp add: exampleCfg_def)
  have pd: "examplePressureDiff (intQuantsIn ?L) (intQuantsEx ?L) 0 0 1 (interiorDofIdx ?L)
               (exteriorDofIdx ?L) (Vin ?L) (Vex ?L) (globalIndexIn ?L) (globalIndexEx ?L)
               (distZ ?L * g ?L) (thpres ?L) = (1, 0, createConstant 6)"
    by (simp add: examplePressureDiff_def example_locals)
  have nz: "val (createConstant 6) \<noteq> 0"
    by simp
  have pr: "problem exampleElemCtx = exampleProblem"
    by (simp add: exampleElemCtx_def)
  have np: "[0..<numPhases exampleCfg] = [0, 1, 2]"
    by (simp add: exampleCfg_def upt3)
  have up: "upstreamQuantities ?L 1 = exampleIntQuantsEx"
    by (simp add: upstreamQuantities_def example_locals)
  have d: "specDarcyFlux exampleProblem ?L 1 1 6 = - 36"
    unfolding specDarcyFlux_def up
    by (simp add: example_locals exampleProblem_def exampleIntQuantsEx_def)
  have c: "specFluxContribution exampleCfg 1 exampleIntQuantsEx (- 36) 2 = - 540"
    by (simp add: specFluxContribution_def exampleCfg_def exampleIntQuantsEx_def
        exampleFluidState_def compSlot_def Let_def)
  have o: "phaseFluxValue exampleCfg exampleProblem examplePressureDiff ?L 0 0 2 0 = 0"
    "phaseFluxValue exampleCfg exampleProblem examplePressureDiff ?L 0 0 2 2 = 72"
    unfolding example_locals
    by (simp_all add: phaseFluxValue_def exampleCfg_def examplePressureDiff_def
        specFluxContribution_def specDarcyFlux_def upstreamQuantities_def upstreamGlobalIndex_def
        exampleProblem_def exampleIntQuants_def exampleIntQuantsEx_def exampleFluidState_def
        compSlot_def Let_def)
  have i: "((0::nat) = 1) = False" "((1::nat) = 1) = True" "((2::nat) = 1) = False"
    by simp_all
  note t = computeFlux_upwind_flux [where calc = examplePressureDiff and L = "?L"
      and cfg = exampleCfg and elemCtx = exampleElemCtx and scvfIdx = 0 and s = 2
      and phaseIdx = 1 and mods = "[]" and flux = "[]" and fl = "[]"
      and iq' = exampleIntQuants, OF refl ne fa og len ph act pd nz]
  have "val (computeFlux_phases exampleCfg examplePressureDiff exampleElemCtx 0 0 ! 2)
        = - 540 + (0 + (0 + (72 + 0)))"
    using t [THEN conjunct2, THEN conjunct2, THEN conjunct1]
    unfolding pr np up val_simps d c
    by (simp only: list.map sum_list.Cons sum_list.Nil i if_True if_False o)
  then show ?thesis
    using t [THEN conjunct2, THEN conjunct1] by simp
qed

section \<open>The pseudo equation slot that computeStorage returns\<close>

lemma createConstant_mult: "createConstant a * createConstant b = createConstant (a * b)"
  by (rule evaluation_eqI) simp_all

lemma mult_createConstant_one: "x * createConstant 1 = x"
  by (rule evaluation_eqI) simp_all

lemma mulAt_constant_factor:
  assumes "s < length v" "v ! s = x * createConstant c"
  shows "\<exists>c'. (if b then mulAt i (createConstant k) v else v) ! s = x * createConstant c'"
proof (cases "b \<and> s = i")
  case True
  then have "(if b then mulAt i (createConstant k) v else v) ! s
             = x * createConstant (c * k)"
    using assms by (simp add: nth_mulAt createConstant_mult mult.assoc)
  then show ?thesis by blast
next
  case False
  then have "(if b then mulAt i (createConstant k) v else v) ! s = x * createConstant c"
    using assms by (auto simp: nth_mulAt)
  then show ?thesis by blast
qed

lemma adaptMassConservationQuantities_factor:
  assumes len: "s < length v"
  shows "\<exists>c. adaptMassConservationQuantities cfg v r ! s = v ! s * createConstant c"
proof (cases "blackoilConserveSurfaceVolume cfg")
  case True
  then have "adaptMassConservationQuantities cfg v r ! s = v ! s * createConstant 1"
    by (simp add: adaptMassConservationQuantities_def mult_createConstant_one)
  then show ?thesis by blast
next
  case False
  define c1 where "c1 = (if waterEnabled cfg
     then mulAt (compSlot cfg (waterCompIdx cfg))
            (createConstant (referenceDensity cfg (waterPhaseIdx cfg) r)) v else v)"
  define c2 where "c2 = (if gasEnabled cfg
     then mulAt (compSlot cfg (gasCompIdx cfg))
            (createConstant (referenceDensity cfg (gasPhaseIdx cfg) r)) c1 else c1)"
  define c3 where "c3 = (if oilEnabled cfg
     then mulAt (compSlot cfg (oilCompIdx cfg))
            (createConstant (referenceDensity cfg (oilPhaseIdx cfg) r)) c2 else c2)"
  have eq: "adaptMassConservationQuantities cfg v r = c3"
    using False unfolding adaptMassConservationQuantities_def Let_def c3_def c2_def c1_def
    by simp
  have l1: "s < length c1" using len by (simp add: c1_def)
  have l2: "s < length c2" using l1 by (simp add: c2_def)
  have v0: "v ! s = v ! s * createConstant 1"
    by (simp add: mult_createConstant_one)
  obtain a where a: "c1 ! s = v ! s * createConstant a"
    using mulAt_constant_factor [OF len v0] unfolding c1_def by blast
  obtain b where b: "c2 ! s = v ! s * createConstant b"
    using mulAt_constant_factor [OF l1 a] unfolding c2_def by blast
  obtain c where c: "c3 ! s = v ! s * createConstant c"
    using mulAt_constant_factor [OF l2 b] unfolding c3_def by blast
  show ?thesis
    unfolding eq using c by blast
qed

text \<open>
  C7, as stated, fails. With masses conserved and the water phase inactive under the
  three-phase numbering, the water slot that \<open>computeStorage\<close> returns at the first
  time level is not the seeded variable: \<open>adaptMassConservationQuantities_\<close> has
  multiplied it, and its derivative with respect to its own index is the reference
  density 2. And when vaporized water is enabled although the water phase is inactive,
  the gas phase adds to the slot after it was set: its value is 66, not zero.
\<close>

theorem pseudo_equation_slot_counterexample:
  "deriv (computeStorage exampleNoWaterMassCfg [] True [] exampleIntQuants 0 ! 1) 1 = 2
   \<and> computeStorage exampleNoWaterMassCfg [] True [] exampleIntQuants 0 ! 1
     \<noteq> createVariable 0 1
   \<and> val (computeStorage exampleNoWaterVaporizedCfg [] True [] exampleIntQuants 0 ! 1) = 66"
proof -
  let ?M = "exampleNoWaterMassCfg"
  let ?W = "exampleNoWaterVaporizedCfg"
  have mi: "\<not> phaseIsActive ?M 0" and mn: "indicesNumPhases ?M = 3"
    and ms: "1 = compSlot ?M (solventComponentIndex ?M 0)"
    and mp: "0 < numPhases ?M \<and> 1 < numEq ?M"
    and mt: "storageTargets ?M 1 = [0, 2]" "storageTargets ?M 2 = [2, 0]"
    and mnp: "numPhases ?M = 3"
    by (simp_all add: exampleNoWaterMassCfg_def exampleNoWaterCfg_def exampleCfg_def
        compSlot_def storageTargets_def)
  have tg: "\<forall>q. 0 < q \<and> q < numPhases ?M \<longrightarrow> 1 \<notin> set (storageTargets ?M q)"
  proof (intro allI impI)
    fix q :: nat
    assume "0 < q \<and> q < numPhases ?M"
    then have "q = 1 \<or> q = 2" using mnp by arith
    then show "1 \<notin> set (storageTargets ?M q)"
      using mt by auto
  qed
  have p: "computeStorage_phases ?M True exampleIntQuants 0 ! 1 = createVariable 0 1"
    using computeStorage_phases_pseudo [OF mi mn ms, of exampleIntQuants 0 "[]"] tg mp
    by simp
  have mass: "\<not> blackoilConserveSurfaceVolume ?M"
    and comp: "(1, 0, True) \<in> set (componentPhases ?M)"
    and dist: "distinct (enabledSlots ?M)"
    and cs: "compSlot ?M 1 = 1"
    and rho: "referenceDensity ?M 0 (pvtRegionIndex exampleIntQuants) = 2"
    by (simp_all add: exampleNoWaterMassCfg_def exampleNoWaterCfg_def exampleCfg_def
        componentPhases_def enabledSlots_def compSlot_def exampleIntQuants_def)
  have l: "compSlot ?M 1 < length (computeStorage_phases ?M True exampleIntQuants 0)"
    unfolding cs using mp by simp
  have "computeStorage ?M [] True [] exampleIntQuants 0 ! 1
        = createConstant 2 * createVariable 0 1"
    using adaptMassConservationQuantities_nth [OF mass comp dist l,
        of "pvtRegionIndex exampleIntQuants"]
    unfolding cs rho p
    by (simp add: computeStorage_def addStorageModules_def)
  then have d: "deriv (computeStorage ?M [] True [] exampleIntQuants 0 ! 1) 1 = 2"
    by simp
  then have n: "computeStorage ?M [] True [] exampleIntQuants 0 ! 1 \<noteq> createVariable 0 1"
    by auto
  have w: "val (computeStorage ?W [] True [] exampleIntQuants 0 ! 1) = 66"
  proof -
    let ?f = "computeStorage_phase ?W True exampleIntQuants 0"
    let ?z = "replicate (numEq ?W) (0::evaluation)"
    have np: "[0..<numPhases ?W] = [0, 1, 2]"
      by (simp add: exampleNoWaterVaporizedCfg_def exampleNoWaterCfg_def exampleCfg_def upt3)
    have cv: "blackoilConserveSurfaceVolume ?W"
      by (simp add: exampleNoWaterVaporizedCfg_def exampleNoWaterCfg_def exampleCfg_def)
    have a2: "phaseIsActive ?W 2"
      by (simp add: exampleNoWaterVaporizedCfg_def exampleNoWaterCfg_def)
    have i0: "\<not> phaseIsActive ?W 0" and n3: "indicesNumPhases ?W = 3"
      and s0: "compSlot ?W (solventComponentIndex ?W 0) = 1"
      by (simp_all add: exampleNoWaterVaporizedCfg_def exampleNoWaterCfg_def exampleCfg_def
          compSlot_def)
    have t1: "1 \<notin> set (storageTargets ?W 1)"
      by (simp add: exampleNoWaterVaporizedCfg_def exampleNoWaterCfg_def exampleCfg_def
          compSlot_def storageTargets_def)
    have lz: "1 < length ?z"
      by (simp add: exampleNoWaterVaporizedCfg_def exampleNoWaterCfg_def exampleCfg_def)
    have l0: "1 < length (?f 0 ?z)" using lz by simp
    have l1: "1 < length (?f 1 (?f 0 ?z))" using l0 by simp
    have e0: "?f 0 ?z ! 1 = createVariable 0 1"
      using computeStorage_phase_pseudo [OF i0 n3, of True exampleIntQuants 0 ?z] lz
      by (simp add: s0 nth_setAt decay_def)
    have e1: "?f 1 (?f 0 ?z) ! 1 = ?f 0 ?z ! 1"
      by (rule computeStorage_phase_untouched [OF t1 l0])
    have c2: "val (storageContribution ?W True exampleIntQuants 2 1) = 66"
      by (simp add: storageContribution_def exampleNoWaterVaporizedCfg_def
          exampleNoWaterCfg_def exampleCfg_def compSlot_def exampleIntQuants_def
          exampleFluidState_def decay_def Let_def)
    have e2: "?f 2 (?f 1 (?f 0 ?z)) ! 1
              = ?f 1 (?f 0 ?z) ! 1 + storageContribution ?W True exampleIntQuants 2 1"
      by (rule computeStorage_phase_active [OF a2 l1])
    have r: "computeStorage ?W [] True [] exampleIntQuants 0 = ?f 2 (?f 1 (?f 0 ?z))"
      unfolding computeStorage_surface_volume [OF cv] computeStorage_phases_def np
      by (simp add: addStorageModules_def)
    have "val (?f 2 (?f 1 (?f 0 ?z)) ! 1) = 66"
      unfolding e2 e1 e0 val_simps c2 by simp
    then show ?thesis
      unfolding r .
  qed
  from d n w show ?thesis by blast
qed


text \<open>
  C7, amended. For an inactive phase under the three-phase numbering
  (\<open>Indices::numPhases == 3\<close>), the iteration of \<open>computeStorage\<close> for that phase
  only assigns the phase's equation slot (it adds no saturation, \<open>invB\<close>, dissolution
  or vaporization term): the variable with value zero seeded with respect to its own
  equation index at the first time level, the plain zero at later time levels. When no
  later phase of the loop writes the slot, the slot that \<open>computeStorage\<close> returns
  (module contributions aside, which are added afterwards) is that content times a
  constant: its value is zero at every time level, its derivative with respect to every
  other index is zero, and at later time levels it is the plain zero. At the first time
  level it is the seeded variable itself when surface volumes are conserved, and the
  seeded variable times the reference density of the phase when masses are conserved
  and the component is enabled.
\<close>

theorem pseudo_equation_slot:
  assumes inact: "\<not> phaseIsActive cfg p" and n3: "indicesNumPhases cfg = 3"
    and slot: "slot = compSlot cfg (solventComponentIndex cfg p)"
    and pl: "p < numPhases cfg" and sl: "slot < numEq cfg"
    and later: "\<forall>q. p < q \<and> q < numPhases cfg \<longrightarrow> slot \<notin> set (storageTargets cfg q)"
    and x: "x = (if t = 0 then createVariable 0 slot else 0)"
  shows "computeStorage_phase cfg True iq t p st = setAt slot x st
         \<and> computeStorage cfg mods True st iq t
           = addStorageModules mods iq (computeStorage cfg [] True st iq t)
         \<and> (blackoilConserveSurfaceVolume cfg \<longrightarrow>
              computeStorage cfg [] True st iq t ! slot = x)
         \<and> (\<not> blackoilConserveSurfaceVolume cfg
              \<and> (solventComponentIndex cfg p, ph, True) \<in> set (componentPhases cfg)
              \<and> distinct (enabledSlots cfg) \<longrightarrow>
              computeStorage cfg [] True st iq t ! slot
              = createConstant (referenceDensity cfg ph (pvtRegionIndex iq)) * x)
         \<and> (\<exists>c. computeStorage cfg [] True st iq t ! slot = x * createConstant c)
         \<and> val (computeStorage cfg [] True st iq t ! slot) = 0
         \<and> (\<forall>k. k \<noteq> slot \<longrightarrow> deriv (computeStorage cfg [] True st iq t ! slot) k = 0)
         \<and> (t \<noteq> 0 \<longrightarrow> computeStorage cfg [] True st iq t ! slot = 0)"
proof -
  let ?P = "computeStorage_phases cfg True iq t"
  let ?S = "computeStorage cfg [] True st iq t"
  note ps = computeStorage_phases_pseudo [OF inact n3 slot, of iq t st]
  have A: "computeStorage_phase cfg True iq t p st = setAt slot x st"
    using ps unfolding x by (rule conjunct1)
  have P: "?P ! slot = x"
    using ps pl sl later unfolding x by blast
  have B: "computeStorage cfg mods True st iq t = addStorageModules mods iq ?S"
    by (simp add: computeStorage_def addStorageModules_def)
  have S: "?S = adaptMassConservationQuantities cfg ?P (pvtRegionIndex iq)"
    by (simp add: computeStorage_def addStorageModules_def)
  have len: "slot < length ?P"
    using sl by simp
  have C: "blackoilConserveSurfaceVolume cfg \<longrightarrow> ?S ! slot = x"
    unfolding S using P by (simp add: adaptMassConservationQuantities_def)
  have D: "\<not> blackoilConserveSurfaceVolume cfg
              \<and> (solventComponentIndex cfg p, ph, True) \<in> set (componentPhases cfg)
              \<and> distinct (enabledSlots cfg) \<longrightarrow>
           ?S ! slot = createConstant (referenceDensity cfg ph (pvtRegionIndex iq)) * x"
  proof
    assume h: "\<not> blackoilConserveSurfaceVolume cfg
              \<and> (solventComponentIndex cfg p, ph, True) \<in> set (componentPhases cfg)
              \<and> distinct (enabledSlots cfg)"
    have l: "compSlot cfg (solventComponentIndex cfg p) < length ?P"
      using len unfolding slot .
    show "?S ! slot = createConstant (referenceDensity cfg ph (pvtRegionIndex iq)) * x"
      using adaptMassConservationQuantities_nth [of cfg "solventComponentIndex cfg p" ph ?P
          "pvtRegionIndex iq"] h l P
      unfolding S slot by simp
  qed
  obtain c where c: "?S ! slot = x * createConstant c"
    using adaptMassConservationQuantities_factor [OF len, of cfg "pvtRegionIndex iq"]
    unfolding S P by blast
  have E: "\<exists>c. ?S ! slot = x * createConstant c"
    using c by blast
  have F: "val (?S ! slot) = 0"
    unfolding c x by simp
  have G: "\<forall>k. k \<noteq> slot \<longrightarrow> deriv (?S ! slot) k = 0"
    unfolding c x by simp
  have H: "t \<noteq> 0 \<longrightarrow> ?S ! slot = 0"
    unfolding c x by simp
  from A B C D E F G H show ?thesis by blast
qed

theorem pseudo_equation_slot_witness:
  "computeStorage exampleNoWaterCfg [] True [] exampleIntQuants 0 ! 1 = createVariable 0 1
   \<and> computeStorage exampleNoWaterMassCfg [] True [] exampleIntQuants 0 ! 1
     = createConstant 2 * createVariable 0 1
   \<and> computeStorage exampleNoWaterMassCfg [] True [] exampleIntQuants 1 ! 1 = 0"
proof -
  let ?V = "exampleNoWaterCfg"
  let ?M = "exampleNoWaterMassCfg"
  have vi: "\<not> phaseIsActive ?V 0" and vn: "indicesNumPhases ?V = 3"
    and vs: "1 = compSlot ?V (solventComponentIndex ?V 0)"
    and vp: "0 < numPhases ?V" and ve: "1 < numEq ?V"
    and vt: "storageTargets ?V 1 = [0, 2]" "storageTargets ?V 2 = [2, 0]"
    and vnp: "numPhases ?V = 3"
    and vc: "blackoilConserveSurfaceVolume ?V"
    by (simp_all add: exampleNoWaterCfg_def exampleCfg_def compSlot_def storageTargets_def)
  have mi: "\<not> phaseIsActive ?M 0" and mn: "indicesNumPhases ?M = 3"
    and ms: "1 = compSlot ?M (solventComponentIndex ?M 0)"
    and mp: "0 < numPhases ?M" and me: "1 < numEq ?M"
    and mt: "storageTargets ?M 1 = [0, 2]" "storageTargets ?M 2 = [2, 0]"
    and mnp: "numPhases ?M = 3"
    and mass: "\<not> blackoilConserveSurfaceVolume ?M"
    and comp: "(solventComponentIndex ?M 0, 0, True) \<in> set (componentPhases ?M)"
    and dist: "distinct (enabledSlots ?M)"
    and rho: "referenceDensity ?M 0 (pvtRegionIndex exampleIntQuants) = 2"
    by (simp_all add: exampleNoWaterMassCfg_def exampleNoWaterCfg_def exampleCfg_def
        compSlot_def storageTargets_def componentPhases_def enabledSlots_def
        exampleIntQuants_def)
  have vtg: "\<forall>q. 0 < q \<and> q < numPhases ?V \<longrightarrow> 1 \<notin> set (storageTargets ?V q)"
  proof (intro allI impI)
    fix q :: nat
    assume "0 < q \<and> q < numPhases ?V"
    then have "q = 1 \<or> q = 2" using vnp by arith
    then show "1 \<notin> set (storageTargets ?V q)"
      using vt by auto
  qed
  have mtg: "\<forall>q. 0 < q \<and> q < numPhases ?M \<longrightarrow> 1 \<notin> set (storageTargets ?M q)"
  proof (intro allI impI)
    fix q :: nat
    assume "0 < q \<and> q < numPhases ?M"
    then have "q = 1 \<or> q = 2" using mnp by arith
    then show "1 \<notin> set (storageTargets ?M q)"
      using mt by auto
  qed
  have a: "computeStorage ?V [] True [] exampleIntQuants 0 ! 1 = createVariable 0 1"
    using pseudo_equation_slot [OF vi vn vs vp ve vtg, of "createVariable 0 1" 0
        exampleIntQuants "[]" "[]" 0] vc
    by simp
  have b: "computeStorage ?M [] True [] exampleIntQuants 0 ! 1
           = createConstant 2 * createVariable 0 1"
    using pseudo_equation_slot [OF mi mn ms mp me mtg, of "createVariable 0 1" 0
        exampleIntQuants "[]" "[]" 0] mass comp dist
    unfolding rho by simp
  have c: "computeStorage ?M [] True [] exampleIntQuants 1 ! 1 = 0"
    using pseudo_equation_slot [OF mi mn ms mp me mtg, of 0 1
        exampleIntQuants "[]" "[]" 0]
    by simp
  from a b c show ?thesis by blast
qed

end
